theory Spec2Isabelle
  imports Main "HOL-Library.Monad_Syntax"
begin

section \<open>Values and objects\<close>

text \<open>
  The extension bag and the field-errors map are plain JavaScript data objects
  (\<^verbatim>\<open>Record<string, unknown>\<close>). A value of type \<^verbatim>\<open>unknown\<close> is a primitive, an
  array or again an object. The library never computes with a number it is given, so a
  numeric payload is carried as an integer. An object is a partial map from property
  names to values: each name occurs at most once, and the order of enumeration does not
  change which value a name has. The properties are the own enumerable string-keyed data
  properties of the object, which are all that a record parsed from JSON or written as a
  literal has and all that a spread copies.
\<close>

datatype jsval =
    JUndefined
  | JNull
  | JBool bool
  | JNum int
  | JStr string
  | JArr "jsval list"
  | JObj "string \<rightharpoonup> jsval"

type_synonym jsobj = "string \<rightharpoonup> jsval"

section \<open>The optional-value abstraction\<close>

text \<open>
  Modelled from the spec: the package \<^verbatim>\<open>@pickle-packs/nads/maybe\<close> that
  \<^verbatim>\<open>src/index.ts\<close> imports \<^verbatim>\<open>match\<close>, \<^verbatim>\<open>Maybe\<close> and \<^verbatim>\<open>some\<close> from is not part of
  this repository. The spec describes it as a two-variant "present/absent" wrapper with a
  match-style reducer taking a present-handler and an absent-default.
\<close>

type_synonym 'a Maybe = "'a option"

text \<open>Modelled from the spec: \<^verbatim>\<open>some\<close> of the missing package, the "present" variant.\<close>

definition some :: "'a \<Rightarrow> 'a Maybe" where
  "some x = Some x"

text \<open>Modelled from the spec: \<^verbatim>\<open>none\<close> of the missing package, the "absent" variant.\<close>

definition none :: "'a Maybe" where
  "none = None"

text \<open>
  Modelled from the spec: \<^verbatim>\<open>match\<close> of the missing package, the reducer that applies the
  present-handler to the wrapped value or returns the absent-default.
\<close>

definition match :: "'a Maybe \<Rightarrow> ('a \<Rightarrow> 'b) \<Rightarrow> 'b \<Rightarrow> 'b" where
  "match m onSome onNone = (case m of Some x \<Rightarrow> onSome x | None \<Rightarrow> onNone)"

section \<open>The problem record and the status table\<close>

type_synonym StatusCode = int

text \<open>
  \<^verbatim>\<open>Problem\<close>, with the fields in the order of the source. \<^verbatim>\<open>extensions\<close> has type
  \<^verbatim>\<open>Record<string, unknown> | undefined\<close>: \<open>None\<close> is \<^verbatim>\<open>undefined\<close>. The type parameter
  is what stands for the object: the object as a value (\<open>jsobj\<close>) where only its
  entries matter, and its address in a store where its identity matters.
\<close>

record 'x Problem =
  detail :: string
  extensions :: "'x option"
  "instance" :: string
  status :: StatusCode
  title :: string
  type :: string

text \<open>The keys of the constant object \<^verbatim>\<open>statusCodes\<close>, and the object itself.\<close>

datatype StatusName =
    BadRequest
  | Conflict
  | Forbidden
  | Gone
  | InternalServerError
  | MethodNotAllowed
  | NotAcceptable
  | NotFound
  | NotImplemented
  | PaymentRequired
  | PreconditionFailed
  | PreconditionRequired
  | RequestTimeout
  | ServiceUnavailable
  | TooManyRequests
  | Unauthorized
  | UnavailableForLegalReasons
  | UnprocessableContent
  | UnsupportedMediaType

fun statusCodes :: "StatusName \<Rightarrow> StatusCode" where
  "statusCodes BadRequest = 400"
| "statusCodes Conflict = 409"
| "statusCodes Forbidden = 403"
| "statusCodes Gone = 410"
| "statusCodes InternalServerError = 500"
| "statusCodes MethodNotAllowed = 405"
| "statusCodes NotAcceptable = 406"
| "statusCodes NotFound = 404"
| "statusCodes NotImplemented = 501"
| "statusCodes PaymentRequired = 402"
| "statusCodes PreconditionFailed = 412"
| "statusCodes PreconditionRequired = 428"
| "statusCodes RequestTimeout = 408"
| "statusCodes ServiceUnavailable = 503"
| "statusCodes TooManyRequests = 429"
| "statusCodes Unauthorized = 401"
| "statusCodes UnavailableForLegalReasons = 451"
| "statusCodes UnprocessableContent = 422"
| "statusCodes UnsupportedMediaType = 415"

definition extensionsErrorKey :: string where
  "extensionsErrorKey = ''errors''"

section \<open>The builder and its helpers\<close>

text \<open>
  The spread \<^verbatim>\<open>{ ...x }\<close> creates an empty object and defines on it every own property
  of \<open>x\<close>: \<open>Map.empty ++ x\<close>. In an object literal, a later property or spread
  overwrites an earlier one of the same name, which is what \<open>++\<close> does.
\<close>

definition getExtensionsOrEmpty :: "jsobj Maybe \<Rightarrow> jsobj" where
  "getExtensionsOrEmpty maybeExtensions =
     match maybeExtensions (\<lambda>x. Map.empty ++ x) Map.empty"

definition resolveExtensions :: "jsobj Maybe \<Rightarrow> jsobj option" where
  "resolveExtensions maybeExtensions =
     match maybeExtensions (\<lambda>x. Some (Map.empty ++ x)) None"

definition buildProblem ::
  "StatusCode \<Rightarrow> string \<Rightarrow> string \<Rightarrow> string \<Rightarrow> string \<Rightarrow> jsobj Maybe \<Rightarrow> jsobj Problem" where
  "buildProblem status' title' type' instance' detail' maybeExtensions =
     \<lparr> detail = detail',
       extensions = resolveExtensions maybeExtensions,
       instance = instance',
       status = status',
       title = title',
       type = type' \<rparr>"

section \<open>The constructors that take a field-errors map\<close>

definition badRequest ::
  "string \<Rightarrow> string \<Rightarrow> string \<Rightarrow> jsobj \<Rightarrow> jsobj Maybe \<Rightarrow> jsobj Problem" where
  "badRequest instance' type' detail' errors maybeExtensions =
     (let extensionsWithErrors =
            [extensionsErrorKey \<mapsto> JObj errors] ++ getExtensionsOrEmpty maybeExtensions
      in buildProblem (statusCodes BadRequest) ''Bad Request''
           type' instance' detail' (some extensionsWithErrors))"

definition internalServerError ::
  "string \<Rightarrow> string \<Rightarrow> string \<Rightarrow> jsobj \<Rightarrow> jsobj Maybe \<Rightarrow> jsobj Problem" where
  "internalServerError instance' type' detail' errors maybeExtensions =
     (let extensionsWithErrors =
            [extensionsErrorKey \<mapsto> JObj errors] ++ getExtensionsOrEmpty maybeExtensions
      in buildProblem (statusCodes InternalServerError) ''Internal Server Error''
           type' instance' detail' (some extensionsWithErrors))"

definition preconditionFailed ::
  "string \<Rightarrow> string \<Rightarrow> string \<Rightarrow> jsobj \<Rightarrow> jsobj Maybe \<Rightarrow> jsobj Problem" where
  "preconditionFailed instance' type' detail' errors maybeExtensions =
     (let extensionsWithErrors =
            [extensionsErrorKey \<mapsto> JObj errors] ++ getExtensionsOrEmpty maybeExtensions
      in buildProblem (statusCodes PreconditionFailed) ''Precondition Failed''
           type' instance' detail' (some extensionsWithErrors))"

definition unprocessableContent ::
  "string \<Rightarrow> string \<Rightarrow> string \<Rightarrow> jsobj \<Rightarrow> jsobj Maybe \<Rightarrow> jsobj Problem" where
  "unprocessableContent instance' type' detail' errors maybeExtensions =
     (let extensionsWithErrors =
            [extensionsErrorKey \<mapsto> JObj errors] ++ getExtensionsOrEmpty maybeExtensions
      in buildProblem (statusCodes UnprocessableContent) ''Unprocessable Content''
           type' instance' detail' (some extensionsWithErrors))"

section \<open>The constructors without a field-errors map\<close>

definition conflict :: "string \<Rightarrow> string \<Rightarrow> string \<Rightarrow> jsobj Maybe \<Rightarrow> jsobj Problem" where
  "conflict instance' type' detail' maybeExtensions =
     buildProblem (statusCodes Conflict) ''Conflict''
       type' instance' detail' maybeExtensions"

definition forbidden :: "string \<Rightarrow> string \<Rightarrow> string \<Rightarrow> jsobj Maybe \<Rightarrow> jsobj Problem" where
  "forbidden instance' type' detail' maybeExtensions =
     buildProblem (statusCodes Forbidden) ''Forbidden''
       type' instance' detail' maybeExtensions"

definition gone :: "string \<Rightarrow> string \<Rightarrow> string \<Rightarrow> jsobj Maybe \<Rightarrow> jsobj Problem" where
  "gone instance' type' detail' maybeExtensions =
     buildProblem (statusCodes Gone) ''Gone''
       type' instance' detail' maybeExtensions"

definition methodNotAllowed :: "string \<Rightarrow> string \<Rightarrow> string \<Rightarrow> jsobj Maybe \<Rightarrow> jsobj Problem" where
  "methodNotAllowed instance' type' detail' maybeExtensions =
     buildProblem (statusCodes MethodNotAllowed) ''Method Not Allowed''
       type' instance' detail' maybeExtensions"

definition notAcceptable :: "string \<Rightarrow> string \<Rightarrow> string \<Rightarrow> jsobj Maybe \<Rightarrow> jsobj Problem" where
  "notAcceptable instance' type' detail' maybeExtensions =
     buildProblem (statusCodes NotAcceptable) ''Not Acceptable''
       type' instance' detail' maybeExtensions"

definition notFound :: "string \<Rightarrow> string \<Rightarrow> string \<Rightarrow> jsobj Maybe \<Rightarrow> jsobj Problem" where
  "notFound instance' type' detail' maybeExtensions =
     buildProblem (statusCodes NotFound) ''Not Found''
       type' instance' detail' maybeExtensions"

definition notImplemented :: "string \<Rightarrow> string \<Rightarrow> string \<Rightarrow> jsobj Maybe \<Rightarrow> jsobj Problem" where
  "notImplemented instance' type' detail' maybeExtensions =
     buildProblem (statusCodes NotImplemented) ''Not Implemented''
       type' instance' detail' maybeExtensions"

definition paymentRequired :: "string \<Rightarrow> string \<Rightarrow> string \<Rightarrow> jsobj Maybe \<Rightarrow> jsobj Problem" where
  "paymentRequired instance' type' detail' maybeExtensions =
     buildProblem (statusCodes PaymentRequired) ''Payment Required''
       type' instance' detail' maybeExtensions"

definition preconditionRequired :: "string \<Rightarrow> string \<Rightarrow> string \<Rightarrow> jsobj Maybe \<Rightarrow> jsobj Problem" where
  "preconditionRequired instance' type' detail' maybeExtensions =
     buildProblem (statusCodes PreconditionRequired) ''Precondition Required''
       type' instance' detail' maybeExtensions"

definition requestTimeout :: "string \<Rightarrow> string \<Rightarrow> string \<Rightarrow> jsobj Maybe \<Rightarrow> jsobj Problem" where
  "requestTimeout instance' type' detail' maybeExtensions =
     buildProblem (statusCodes RequestTimeout) ''Request Timeout''
       type' instance' detail' maybeExtensions"

definition serviceUnavailable :: "string \<Rightarrow> string \<Rightarrow> string \<Rightarrow> jsobj Maybe \<Rightarrow> jsobj Problem" where
  "serviceUnavailable instance' type' detail' maybeExtensions =
     buildProblem (statusCodes ServiceUnavailable) ''Service Unavailable''
       type' instance' detail' maybeExtensions"

definition tooManyRequests :: "string \<Rightarrow> string \<Rightarrow> string \<Rightarrow> jsobj Maybe \<Rightarrow> jsobj Problem" where
  "tooManyRequests instance' type' detail' maybeExtensions =
     buildProblem (statusCodes TooManyRequests) ''Too Many Requests''
       type' instance' detail' maybeExtensions"

definition unauthorized :: "string \<Rightarrow> string \<Rightarrow> string \<Rightarrow> jsobj Maybe \<Rightarrow> jsobj Problem" where
  "unauthorized instance' type' detail' maybeExtensions =
     buildProblem (statusCodes Unauthorized) ''Unauthorized''
       type' instance' detail' maybeExtensions"

definition unavailableForLegalReasons ::
  "string \<Rightarrow> string \<Rightarrow> string \<Rightarrow> jsobj Maybe \<Rightarrow> jsobj Problem" where
  "unavailableForLegalReasons instance' type' detail' maybeExtensions =
     buildProblem (statusCodes UnavailableForLegalReasons) ''Unavailable For Legal Reasons''
       type' instance' detail' maybeExtensions"

definition unsupportedMediaType :: "string \<Rightarrow> string \<Rightarrow> string \<Rightarrow> jsobj Maybe \<Rightarrow> jsobj Problem" where
  "unsupportedMediaType instance' type' detail' maybeExtensions =
     buildProblem (statusCodes UnsupportedMediaType) ''Unsupported Media Type''
       type' instance' detail' maybeExtensions"

definition contentType :: string where
  "contentType = ''application/problem+json; charset=utf-8''"

section \<open>The same functions over a store of objects\<close>

text \<open>
  A JavaScript object has an identity: the caller keeps the object it passed and may
  assign to it later. Where that matters the objects live in a store, a value of type
  \<^verbatim>\<open>unknown\<close> is a primitive or the address of an object, and every function takes the
  store and returns it with the objects it has created. The address of a new object is
  the next free one; in which order the new objects of one call get their addresses
  cannot be observed by a program.

  A JavaScript reference always names a live object. An address is a number, so the
  model has to say what reading an address outside the store gives: \<open>None\<close>, which
  aborts the call. No caller of the source can produce it.
\<close>

type_synonym addr = nat

datatype refval =
    RUndefined
  | RNull
  | RBool bool
  | RNum int
  | RStr string
  | RRef addr

type_synonym sobj = "string \<rightharpoonup> refval"

type_synonym store = "sobj list"

definition props :: "store \<Rightarrow> addr \<Rightarrow> sobj option" where
  "props s a = (if a < length s then Some (s ! a) else None)"

definition alloc :: "store \<Rightarrow> sobj \<Rightarrow> addr \<times> store" where
  "alloc s x = (length s, s @ [x])"

text \<open>
  What the caller can do to an object it holds, by any number of assignments to its
  properties and deletions of them: leave it with other properties, \<open>x\<close>.
\<close>

definition mutate :: "store \<Rightarrow> addr \<Rightarrow> sobj \<Rightarrow> store" where
  "mutate s a x = s[a := x]"

text \<open>The spread \<^verbatim>\<open>{ ...x }\<close>: a new object with the properties of the object at \<open>x\<close>.\<close>

definition spread :: "store \<Rightarrow> addr \<Rightarrow> (addr \<times> store) option" where
  "spread s x = do { px \<leftarrow> props s x; Some (alloc s (Map.empty ++ px)) }"

text \<open>
  The default \<^verbatim>\<open>{}\<close> of \<^verbatim>\<open>getExtensionsOrEmpty\<close> is an argument of \<^verbatim>\<open>match\<close>, so it is
  created on every call, before \<^verbatim>\<open>match\<close> runs.
\<close>

definition getExtensionsOrEmpty_st :: "store \<Rightarrow> addr Maybe \<Rightarrow> (addr \<times> store) option" where
  "getExtensionsOrEmpty_st s maybeExtensions =
     (let (emptyObject, s1) = alloc s Map.empty
      in match maybeExtensions (\<lambda>x. spread s1 x) (Some (emptyObject, s1)))"

definition resolveExtensions_st ::
  "store \<Rightarrow> addr Maybe \<Rightarrow> (addr option \<times> store) option" where
  "resolveExtensions_st s maybeExtensions =
     match maybeExtensions
       (\<lambda>x. do { (copy, s1) \<leftarrow> spread s x; Some (Some copy, s1) })
       (Some (None, s))"

definition buildProblem_st ::
  "store \<Rightarrow> StatusCode \<Rightarrow> string \<Rightarrow> string \<Rightarrow> string \<Rightarrow> string \<Rightarrow> addr Maybe \<Rightarrow>
     (addr Problem \<times> store) option" where
  "buildProblem_st s status' title' type' instance' detail' maybeExtensions =
     do { (resolved, s1) \<leftarrow> resolveExtensions_st s maybeExtensions;
          Some (\<lparr> detail = detail',
                  extensions = resolved,
                  instance = instance',
                  status = status',
                  title = title',
                  type = type' \<rparr>, s1) }"

text \<open>
  The literal \<^verbatim>\<open>{ [extensionsErrorKey]: errors, ...getExtensionsOrEmpty(maybeExtensions) }\<close>
  stores the reference \<open>errors\<close> itself and copies the properties of the helper's result.
\<close>

definition badRequest_st ::
  "store \<Rightarrow> string \<Rightarrow> string \<Rightarrow> string \<Rightarrow> addr \<Rightarrow> addr Maybe \<Rightarrow>
     (addr Problem \<times> store) option" where
  "badRequest_st s instance' type' detail' errors maybeExtensions =
     do { (rest, s1) \<leftarrow> getExtensionsOrEmpty_st s maybeExtensions;
          restProps \<leftarrow> props s1 rest;
          let (extensionsWithErrors, s2) =
                alloc s1 ([extensionsErrorKey \<mapsto> RRef errors] ++ restProps);
          buildProblem_st s2 (statusCodes BadRequest) ''Bad Request''
            type' instance' detail' (some extensionsWithErrors) }"

definition internalServerError_st ::
  "store \<Rightarrow> string \<Rightarrow> string \<Rightarrow> string \<Rightarrow> addr \<Rightarrow> addr Maybe \<Rightarrow>
     (addr Problem \<times> store) option" where
  "internalServerError_st s instance' type' detail' errors maybeExtensions =
     do { (rest, s1) \<leftarrow> getExtensionsOrEmpty_st s maybeExtensions;
          restProps \<leftarrow> props s1 rest;
          let (extensionsWithErrors, s2) =
                alloc s1 ([extensionsErrorKey \<mapsto> RRef errors] ++ restProps);
          buildProblem_st s2 (statusCodes InternalServerError) ''Internal Server Error''
            type' instance' detail' (some extensionsWithErrors) }"

definition preconditionFailed_st ::
  "store \<Rightarrow> string \<Rightarrow> string \<Rightarrow> string \<Rightarrow> addr \<Rightarrow> addr Maybe \<Rightarrow>
     (addr Problem \<times> store) option" where
  "preconditionFailed_st s instance' type' detail' errors maybeExtensions =
     do { (rest, s1) \<leftarrow> getExtensionsOrEmpty_st s maybeExtensions;
          restProps \<leftarrow> props s1 rest;
          let (extensionsWithErrors, s2) =
                alloc s1 ([extensionsErrorKey \<mapsto> RRef errors] ++ restProps);
          buildProblem_st s2 (statusCodes PreconditionFailed) ''Precondition Failed''
            type' instance' detail' (some extensionsWithErrors) }"

definition unprocessableContent_st ::
  "store \<Rightarrow> string \<Rightarrow> string \<Rightarrow> string \<Rightarrow> addr \<Rightarrow> addr Maybe \<Rightarrow>
     (addr Problem \<times> store) option" where
  "unprocessableContent_st s instance' type' detail' errors maybeExtensions =
     do { (rest, s1) \<leftarrow> getExtensionsOrEmpty_st s maybeExtensions;
          restProps \<leftarrow> props s1 rest;
          let (extensionsWithErrors, s2) =
                alloc s1 ([extensionsErrorKey \<mapsto> RRef errors] ++ restProps);
          buildProblem_st s2 (statusCodes UnprocessableContent) ''Unprocessable Content''
            type' instance' detail' (some extensionsWithErrors) }"

definition conflict_st ::
  "store \<Rightarrow> string \<Rightarrow> string \<Rightarrow> string \<Rightarrow> addr Maybe \<Rightarrow> (addr Problem \<times> store) option" where
  "conflict_st s instance' type' detail' maybeExtensions =
     buildProblem_st s (statusCodes Conflict) ''Conflict''
       type' instance' detail' maybeExtensions"

definition forbidden_st ::
  "store \<Rightarrow> string \<Rightarrow> string \<Rightarrow> string \<Rightarrow> addr Maybe \<Rightarrow> (addr Problem \<times> store) option" where
  "forbidden_st s instance' type' detail' maybeExtensions =
     buildProblem_st s (statusCodes Forbidden) ''Forbidden''
       type' instance' detail' maybeExtensions"

definition gone_st ::
  "store \<Rightarrow> string \<Rightarrow> string \<Rightarrow> string \<Rightarrow> addr Maybe \<Rightarrow> (addr Problem \<times> store) option" where
  "gone_st s instance' type' detail' maybeExtensions =
     buildProblem_st s (statusCodes Gone) ''Gone''
       type' instance' detail' maybeExtensions"

definition methodNotAllowed_st ::
  "store \<Rightarrow> string \<Rightarrow> string \<Rightarrow> string \<Rightarrow> addr Maybe \<Rightarrow> (addr Problem \<times> store) option" where
  "methodNotAllowed_st s instance' type' detail' maybeExtensions =
     buildProblem_st s (statusCodes MethodNotAllowed) ''Method Not Allowed''
       type' instance' detail' maybeExtensions"

definition notAcceptable_st ::
  "store \<Rightarrow> string \<Rightarrow> string \<Rightarrow> string \<Rightarrow> addr Maybe \<Rightarrow> (addr Problem \<times> store) option" where
  "notAcceptable_st s instance' type' detail' maybeExtensions =
     buildProblem_st s (statusCodes NotAcceptable) ''Not Acceptable''
       type' instance' detail' maybeExtensions"

definition notFound_st ::
  "store \<Rightarrow> string \<Rightarrow> string \<Rightarrow> string \<Rightarrow> addr Maybe \<Rightarrow> (addr Problem \<times> store) option" where
  "notFound_st s instance' type' detail' maybeExtensions =
     buildProblem_st s (statusCodes NotFound) ''Not Found''
       type' instance' detail' maybeExtensions"

definition notImplemented_st ::
  "store \<Rightarrow> string \<Rightarrow> string \<Rightarrow> string \<Rightarrow> addr Maybe \<Rightarrow> (addr Problem \<times> store) option" where
  "notImplemented_st s instance' type' detail' maybeExtensions =
     buildProblem_st s (statusCodes NotImplemented) ''Not Implemented''
       type' instance' detail' maybeExtensions"

definition paymentRequired_st ::
  "store \<Rightarrow> string \<Rightarrow> string \<Rightarrow> string \<Rightarrow> addr Maybe \<Rightarrow> (addr Problem \<times> store) option" where
  "paymentRequired_st s instance' type' detail' maybeExtensions =
     buildProblem_st s (statusCodes PaymentRequired) ''Payment Required''
       type' instance' detail' maybeExtensions"

definition preconditionRequired_st ::
  "store \<Rightarrow> string \<Rightarrow> string \<Rightarrow> string \<Rightarrow> addr Maybe \<Rightarrow> (addr Problem \<times> store) option" where
  "preconditionRequired_st s instance' type' detail' maybeExtensions =
     buildProblem_st s (statusCodes PreconditionRequired) ''Precondition Required''
       type' instance' detail' maybeExtensions"

definition requestTimeout_st ::
  "store \<Rightarrow> string \<Rightarrow> string \<Rightarrow> string \<Rightarrow> addr Maybe \<Rightarrow> (addr Problem \<times> store) option" where
  "requestTimeout_st s instance' type' detail' maybeExtensions =
     buildProblem_st s (statusCodes RequestTimeout) ''Request Timeout''
       type' instance' detail' maybeExtensions"

definition serviceUnavailable_st ::
  "store \<Rightarrow> string \<Rightarrow> string \<Rightarrow> string \<Rightarrow> addr Maybe \<Rightarrow> (addr Problem \<times> store) option" where
  "serviceUnavailable_st s instance' type' detail' maybeExtensions =
     buildProblem_st s (statusCodes ServiceUnavailable) ''Service Unavailable''
       type' instance' detail' maybeExtensions"

definition tooManyRequests_st ::
  "store \<Rightarrow> string \<Rightarrow> string \<Rightarrow> string \<Rightarrow> addr Maybe \<Rightarrow> (addr Problem \<times> store) option" where
  "tooManyRequests_st s instance' type' detail' maybeExtensions =
     buildProblem_st s (statusCodes TooManyRequests) ''Too Many Requests''
       type' instance' detail' maybeExtensions"

definition unauthorized_st ::
  "store \<Rightarrow> string \<Rightarrow> string \<Rightarrow> string \<Rightarrow> addr Maybe \<Rightarrow> (addr Problem \<times> store) option" where
  "unauthorized_st s instance' type' detail' maybeExtensions =
     buildProblem_st s (statusCodes Unauthorized) ''Unauthorized''
       type' instance' detail' maybeExtensions"

definition unavailableForLegalReasons_st ::
  "store \<Rightarrow> string \<Rightarrow> string \<Rightarrow> string \<Rightarrow> addr Maybe \<Rightarrow> (addr Problem \<times> store) option" where
  "unavailableForLegalReasons_st s instance' type' detail' maybeExtensions =
     buildProblem_st s (statusCodes UnavailableForLegalReasons) ''Unavailable For Legal Reasons''
       type' instance' detail' maybeExtensions"

definition unsupportedMediaType_st ::
  "store \<Rightarrow> string \<Rightarrow> string \<Rightarrow> string \<Rightarrow> addr Maybe \<Rightarrow> (addr Problem \<times> store) option" where
  "unsupportedMediaType_st s instance' type' detail' maybeExtensions =
     buildProblem_st s (statusCodes UnsupportedMediaType) ''Unsupported Media Type''
       type' instance' detail' maybeExtensions"

text \<open>
  What reading \<^verbatim>\<open>problem.extensions\<close> gives in a store: nothing when the field is
  \<^verbatim>\<open>undefined\<close>, the properties of the object it refers to otherwise.
\<close>

definition readExtensions :: "addr Problem \<Rightarrow> store \<Rightarrow> sobj option" where
  "readExtensions p s = do { a \<leftarrow> extensions p; props s a }"

text \<open>
  A well-typed extension argument in a store: absent, or the address of an object of the
  store.
\<close>

definition allocated :: "store \<Rightarrow> addr Maybe \<Rightarrow> bool" where
  "allocated s maybeExtensions = (case maybeExtensions of None \<Rightarrow> True | Some b \<Rightarrow> b < length s)"

section \<open>From the store back to values\<close>

text \<open>
  Reading the objects of a store as values, for any reading \<open>\<alpha>\<close> of what is stored under
  a property: an object is read property by property, a problem record by following its
  \<^verbatim>\<open>extensions\<close> reference, an extension argument by following its address.
\<close>

definition absObj :: "(refval \<Rightarrow> jsval) \<Rightarrow> sobj \<Rightarrow> jsobj" where
  "absObj \<alpha> x = (\<lambda>k. map_option \<alpha> (x k))"

definition absMaybe :: "(refval \<Rightarrow> jsval) \<Rightarrow> store \<Rightarrow> addr Maybe \<Rightarrow> jsobj Maybe" where
  "absMaybe \<alpha> s maybeExtensions =
     do { b \<leftarrow> maybeExtensions; map_option (absObj \<alpha>) (props s b) }"

definition absProblem :: "(refval \<Rightarrow> jsval) \<Rightarrow> store \<Rightarrow> addr Problem \<Rightarrow> jsobj Problem" where
  "absProblem \<alpha> s p =
     \<lparr> detail = detail p,
       extensions = absMaybe \<alpha> s (extensions p),
       instance = instance p,
       status = status p,
       title = title p,
       type = type p \<rparr>"

section \<open>Objects with accessor properties\<close>

text \<open>
  A value of type \<^verbatim>\<open>Readonly<Record<string, unknown>>\<close> need not be plain data: an own
  enumerable property may be an accessor, and the spread \<^verbatim>\<open>{ ...x }\<close> reads every own
  enumerable property of \<open>x\<close> in the order of its keys, which runs the getter of an
  accessor. A getter is described here by what a call of it does: it returns a value, or
  it throws one. An object is the list of its own enumerable properties in the order of
  enumeration. A call of a function of the source then either returns or ends with the
  exception that was thrown; as in the store above, an address outside the store ends the
  call of the model (\<open>NoSuchObject\<close>), which no caller of the source can cause.
\<close>

datatype getter =
    Returns refval
  | Throws refval

datatype property =
    Data refval
  | Accessor getter

type_synonym aobj = "(string \<times> property) list"

type_synonym astore = "aobj list"

datatype failure =
    Thrown refval
  | NoSuchObject addr

definition props_acc :: "astore \<Rightarrow> addr \<Rightarrow> failure + aobj" where
  "props_acc s a = (if a < length s then Inr (s ! a) else Inl (NoSuchObject a))"

definition alloc_acc :: "astore \<Rightarrow> aobj \<Rightarrow> addr \<times> astore" where
  "alloc_acc s x = (length s, s @ [x])"

text \<open>Reading a property: its value, or what its getter does.\<close>

fun getProperty :: "property \<Rightarrow> failure + refval" where
  "getProperty (Data v) = Inr v"
| "getProperty (Accessor (Returns v)) = Inr v"
| "getProperty (Accessor (Throws v)) = Inl (Thrown v)"

text \<open>
  Defining a data property on an object under construction: a property of that name is
  replaced where it stands, a new name is added at the end.
\<close>

definition createDataProperty :: "aobj \<Rightarrow> string \<Rightarrow> refval \<Rightarrow> aobj" where
  "createDataProperty x k v =
     (if k \<in> fst ` set x
      then map (\<lambda>(k', p). if k' = k then (k', Data v) else (k', p)) x
      else x @ [(k, Data v)])"

text \<open>
  The loop of the spread: each property of the source is read and defined on the target
  as a data property; the first getter that throws ends the loop with its exception.
\<close>

fun copyDataProperties :: "aobj \<Rightarrow> aobj \<Rightarrow> failure + aobj" where
  "copyDataProperties target [] = Inr target"
| "copyDataProperties target ((k, p) # rest) =
     (case getProperty p of
        Inl e \<Rightarrow> Inl e
      | Inr v \<Rightarrow> copyDataProperties (createDataProperty target k v) rest)"

text \<open>
  The properties of an object literal that already has the properties \<open>target\<close> after
  the spread \<^verbatim>\<open>...x\<close> of the object at \<open>x\<close>.
\<close>

definition spreadOnto :: "astore \<Rightarrow> aobj \<Rightarrow> addr \<Rightarrow> failure + aobj" where
  "spreadOnto s target x =
     (case props_acc s x of
        Inl e \<Rightarrow> Inl e
      | Inr px \<Rightarrow> copyDataProperties target px)"

text \<open>The literal \<^verbatim>\<open>{ ...x }\<close>: a new object.\<close>

definition spread_acc :: "astore \<Rightarrow> addr \<Rightarrow> failure + (addr \<times> astore)" where
  "spread_acc s x =
     (case spreadOnto s [] x of
        Inl e \<Rightarrow> Inl e
      | Inr copy \<Rightarrow> Inr (alloc_acc s copy))"

definition getExtensionsOrEmpty_acc ::
  "astore \<Rightarrow> addr Maybe \<Rightarrow> failure + (addr \<times> astore)" where
  "getExtensionsOrEmpty_acc s maybeExtensions =
     (let (emptyObject, s1) = alloc_acc s []
      in match maybeExtensions (\<lambda>x. spread_acc s1 x) (Inr (emptyObject, s1)))"

definition resolveExtensions_acc ::
  "astore \<Rightarrow> addr Maybe \<Rightarrow> failure + (addr option \<times> astore)" where
  "resolveExtensions_acc s maybeExtensions =
     match maybeExtensions
       (\<lambda>x. case spread_acc s x of
               Inl e \<Rightarrow> Inl e
             | Inr (copy, s1) \<Rightarrow> Inr (Some copy, s1))
       (Inr (None, s))"

definition buildProblem_acc ::
  "astore \<Rightarrow> StatusCode \<Rightarrow> string \<Rightarrow> string \<Rightarrow> string \<Rightarrow> string \<Rightarrow> addr Maybe \<Rightarrow>
     failure + (addr Problem \<times> astore)" where
  "buildProblem_acc s status' title' type' instance' detail' maybeExtensions =
     (case resolveExtensions_acc s maybeExtensions of
        Inl e \<Rightarrow> Inl e
      | Inr (resolved, s1) \<Rightarrow>
          Inr (\<lparr> detail = detail',
                 extensions = resolved,
                 instance = instance',
                 status = status',
                 title = title',
                 type = type' \<rparr>, s1))"

definition badRequest_acc ::
  "astore \<Rightarrow> string \<Rightarrow> string \<Rightarrow> string \<Rightarrow> addr \<Rightarrow> addr Maybe \<Rightarrow>
     failure + (addr Problem \<times> astore)" where
  "badRequest_acc s instance' type' detail' errors maybeExtensions =
     (case getExtensionsOrEmpty_acc s maybeExtensions of
        Inl e \<Rightarrow> Inl e
      | Inr (rest, s1) \<Rightarrow>
          (case spreadOnto s1 [(extensionsErrorKey, Data (RRef errors))] rest of
             Inl e \<Rightarrow> Inl e
           | Inr literal \<Rightarrow>
               (let (extensionsWithErrors, s2) = alloc_acc s1 literal
                in buildProblem_acc s2 (statusCodes BadRequest) ''Bad Request''
                     type' instance' detail' (some extensionsWithErrors))))"

definition internalServerError_acc ::
  "astore \<Rightarrow> string \<Rightarrow> string \<Rightarrow> string \<Rightarrow> addr \<Rightarrow> addr Maybe \<Rightarrow>
     failure + (addr Problem \<times> astore)" where
  "internalServerError_acc s instance' type' detail' errors maybeExtensions =
     (case getExtensionsOrEmpty_acc s maybeExtensions of
        Inl e \<Rightarrow> Inl e
      | Inr (rest, s1) \<Rightarrow>
          (case spreadOnto s1 [(extensionsErrorKey, Data (RRef errors))] rest of
             Inl e \<Rightarrow> Inl e
           | Inr literal \<Rightarrow>
               (let (extensionsWithErrors, s2) = alloc_acc s1 literal
                in buildProblem_acc s2 (statusCodes InternalServerError) ''Internal Server Error''
                     type' instance' detail' (some extensionsWithErrors))))"

definition preconditionFailed_acc ::
  "astore \<Rightarrow> string \<Rightarrow> string \<Rightarrow> string \<Rightarrow> addr \<Rightarrow> addr Maybe \<Rightarrow>
     failure + (addr Problem \<times> astore)" where
  "preconditionFailed_acc s instance' type' detail' errors maybeExtensions =
     (case getExtensionsOrEmpty_acc s maybeExtensions of
        Inl e \<Rightarrow> Inl e
      | Inr (rest, s1) \<Rightarrow>
          (case spreadOnto s1 [(extensionsErrorKey, Data (RRef errors))] rest of
             Inl e \<Rightarrow> Inl e
           | Inr literal \<Rightarrow>
               (let (extensionsWithErrors, s2) = alloc_acc s1 literal
                in buildProblem_acc s2 (statusCodes PreconditionFailed) ''Precondition Failed''
                     type' instance' detail' (some extensionsWithErrors))))"

definition unprocessableContent_acc ::
  "astore \<Rightarrow> string \<Rightarrow> string \<Rightarrow> string \<Rightarrow> addr \<Rightarrow> addr Maybe \<Rightarrow>
     failure + (addr Problem \<times> astore)" where
  "unprocessableContent_acc s instance' type' detail' errors maybeExtensions =
     (case getExtensionsOrEmpty_acc s maybeExtensions of
        Inl e \<Rightarrow> Inl e
      | Inr (rest, s1) \<Rightarrow>
          (case spreadOnto s1 [(extensionsErrorKey, Data (RRef errors))] rest of
             Inl e \<Rightarrow> Inl e
           | Inr literal \<Rightarrow>
               (let (extensionsWithErrors, s2) = alloc_acc s1 literal
                in buildProblem_acc s2 (statusCodes UnprocessableContent) ''Unprocessable Content''
                     type' instance' detail' (some extensionsWithErrors))))"

definition conflict_acc ::
  "astore \<Rightarrow> string \<Rightarrow> string \<Rightarrow> string \<Rightarrow> addr Maybe \<Rightarrow>
     failure + (addr Problem \<times> astore)" where
  "conflict_acc s instance' type' detail' maybeExtensions =
     buildProblem_acc s (statusCodes Conflict) ''Conflict''
       type' instance' detail' maybeExtensions"

definition forbidden_acc ::
  "astore \<Rightarrow> string \<Rightarrow> string \<Rightarrow> string \<Rightarrow> addr Maybe \<Rightarrow>
     failure + (addr Problem \<times> astore)" where
  "forbidden_acc s instance' type' detail' maybeExtensions =
     buildProblem_acc s (statusCodes Forbidden) ''Forbidden''
       type' instance' detail' maybeExtensions"

definition gone_acc ::
  "astore \<Rightarrow> string \<Rightarrow> string \<Rightarrow> string \<Rightarrow> addr Maybe \<Rightarrow>
     failure + (addr Problem \<times> astore)" where
  "gone_acc s instance' type' detail' maybeExtensions =
     buildProblem_acc s (statusCodes Gone) ''Gone''
       type' instance' detail' maybeExtensions"

definition methodNotAllowed_acc ::
  "astore \<Rightarrow> string \<Rightarrow> string \<Rightarrow> string \<Rightarrow> addr Maybe \<Rightarrow>
     failure + (addr Problem \<times> astore)" where
  "methodNotAllowed_acc s instance' type' detail' maybeExtensions =
     buildProblem_acc s (statusCodes MethodNotAllowed) ''Method Not Allowed''
       type' instance' detail' maybeExtensions"

definition notAcceptable_acc ::
  "astore \<Rightarrow> string \<Rightarrow> string \<Rightarrow> string \<Rightarrow> addr Maybe \<Rightarrow>
     failure + (addr Problem \<times> astore)" where
  "notAcceptable_acc s instance' type' detail' maybeExtensions =
     buildProblem_acc s (statusCodes NotAcceptable) ''Not Acceptable''
       type' instance' detail' maybeExtensions"

definition notFound_acc ::
  "astore \<Rightarrow> string \<Rightarrow> string \<Rightarrow> string \<Rightarrow> addr Maybe \<Rightarrow>
     failure + (addr Problem \<times> astore)" where
  "notFound_acc s instance' type' detail' maybeExtensions =
     buildProblem_acc s (statusCodes NotFound) ''Not Found''
       type' instance' detail' maybeExtensions"

definition notImplemented_acc ::
  "astore \<Rightarrow> string \<Rightarrow> string \<Rightarrow> string \<Rightarrow> addr Maybe \<Rightarrow>
     failure + (addr Problem \<times> astore)" where
  "notImplemented_acc s instance' type' detail' maybeExtensions =
     buildProblem_acc s (statusCodes NotImplemented) ''Not Implemented''
       type' instance' detail' maybeExtensions"

definition paymentRequired_acc ::
  "astore \<Rightarrow> string \<Rightarrow> string \<Rightarrow> string \<Rightarrow> addr Maybe \<Rightarrow>
     failure + (addr Problem \<times> astore)" where
  "paymentRequired_acc s instance' type' detail' maybeExtensions =
     buildProblem_acc s (statusCodes PaymentRequired) ''Payment Required''
       type' instance' detail' maybeExtensions"

definition preconditionRequired_acc ::
  "astore \<Rightarrow> string \<Rightarrow> string \<Rightarrow> string \<Rightarrow> addr Maybe \<Rightarrow>
     failure + (addr Problem \<times> astore)" where
  "preconditionRequired_acc s instance' type' detail' maybeExtensions =
     buildProblem_acc s (statusCodes PreconditionRequired) ''Precondition Required''
       type' instance' detail' maybeExtensions"

definition requestTimeout_acc ::
  "astore \<Rightarrow> string \<Rightarrow> string \<Rightarrow> string \<Rightarrow> addr Maybe \<Rightarrow>
     failure + (addr Problem \<times> astore)" where
  "requestTimeout_acc s instance' type' detail' maybeExtensions =
     buildProblem_acc s (statusCodes RequestTimeout) ''Request Timeout''
       type' instance' detail' maybeExtensions"

definition serviceUnavailable_acc ::
  "astore \<Rightarrow> string \<Rightarrow> string \<Rightarrow> string \<Rightarrow> addr Maybe \<Rightarrow>
     failure + (addr Problem \<times> astore)" where
  "serviceUnavailable_acc s instance' type' detail' maybeExtensions =
     buildProblem_acc s (statusCodes ServiceUnavailable) ''Service Unavailable''
       type' instance' detail' maybeExtensions"

definition tooManyRequests_acc ::
  "astore \<Rightarrow> string \<Rightarrow> string \<Rightarrow> string \<Rightarrow> addr Maybe \<Rightarrow>
     failure + (addr Problem \<times> astore)" where
  "tooManyRequests_acc s instance' type' detail' maybeExtensions =
     buildProblem_acc s (statusCodes TooManyRequests) ''Too Many Requests''
       type' instance' detail' maybeExtensions"

definition unauthorized_acc ::
  "astore \<Rightarrow> string \<Rightarrow> string \<Rightarrow> string \<Rightarrow> addr Maybe \<Rightarrow>
     failure + (addr Problem \<times> astore)" where
  "unauthorized_acc s instance' type' detail' maybeExtensions =
     buildProblem_acc s (statusCodes Unauthorized) ''Unauthorized''
       type' instance' detail' maybeExtensions"

definition unavailableForLegalReasons_acc ::
  "astore \<Rightarrow> string \<Rightarrow> string \<Rightarrow> string \<Rightarrow> addr Maybe \<Rightarrow>
     failure + (addr Problem \<times> astore)" where
  "unavailableForLegalReasons_acc s instance' type' detail' maybeExtensions =
     buildProblem_acc s (statusCodes UnavailableForLegalReasons) ''Unavailable For Legal Reasons''
       type' instance' detail' maybeExtensions"

definition unsupportedMediaType_acc ::
  "astore \<Rightarrow> string \<Rightarrow> string \<Rightarrow> string \<Rightarrow> addr Maybe \<Rightarrow>
     failure + (addr Problem \<times> astore)" where
  "unsupportedMediaType_acc s instance' type' detail' maybeExtensions =
     buildProblem_acc s (statusCodes UnsupportedMediaType) ''Unsupported Media Type''
       type' instance' detail' maybeExtensions"

text \<open>
  A plain data object has data properties only. A plain extension argument is absent, or
  the address of a plain data object of the store.
\<close>

fun isData :: "string \<times> property \<Rightarrow> bool" where
  "isData (k, Data v) = True"
| "isData (k, Accessor g) = False"

definition plainBag :: "astore \<Rightarrow> addr Maybe \<Rightarrow> bool" where
  "plainBag s maybeExtensions =
     (case maybeExtensions of
        None \<Rightarrow> True
      | Some b \<Rightarrow> b < length s \<and> list_all isData (s ! b))"

section \<open>Facts about the helpers\<close>

lemma getExtensionsOrEmpty_simps:
  "getExtensionsOrEmpty None = Map.empty"
  "getExtensionsOrEmpty (Some b) = b"
  by (simp_all add: getExtensionsOrEmpty_def match_def)

lemma resolveExtensions_simps:
  "resolveExtensions None = None"
  "resolveExtensions (Some b) = Some b"
  by (simp_all add: resolveExtensions_def match_def)

lemmas errors_ctor_defs =
  badRequest_def internalServerError_def preconditionFailed_def unprocessableContent_def

lemmas plain_ctor_defs =
  conflict_def forbidden_def gone_def methodNotAllowed_def notAcceptable_def notFound_def
  notImplemented_def paymentRequired_def preconditionRequired_def requestTimeout_def
  serviceUnavailable_def tooManyRequests_def unauthorized_def
  unavailableForLegalReasons_def unsupportedMediaType_def

section \<open>The concrete scenario\<close>

text \<open>
  C8. The bad-input scenario of the spec: \<^verbatim>\<open>badRequest("/users",
  "https://httpstatuses.io/400", "Invalid input", {"user.email": ["must be an email"]},
  none)\<close> returns the record with status 400, title "Bad Request", the three strings
  passed through unchanged, and extensions equal to the one-entry object whose
  \<^verbatim>\<open>errors\<close> property is the field-errors map.
\<close>

theorem badRequest_scenario:
  "badRequest ''/users'' ''https://httpstatuses.io/400'' ''Invalid input''
     [''user.email'' \<mapsto> JArr [JStr ''must be an email'']] none =
   \<lparr> detail = ''Invalid input'',
     extensions = Some [''errors'' \<mapsto> JObj [''user.email'' \<mapsto> JArr [JStr ''must be an email'']]],
     instance = ''/users'',
     status = 400,
     title = ''Bad Request'',
     type = ''https://httpstatuses.io/400'' \<rparr>"
  by (simp add: badRequest_def buildProblem_def resolveExtensions_simps
      getExtensionsOrEmpty_simps some_def none_def extensionsErrorKey_def)

section \<open>Status and title of every constructor\<close>

text \<open>
  C3. For each of the 19 name/status/category pairs of the interface table, the
  constructor called with any instance, type and detail strings (and any field-errors map
  where it takes one) and an absent extension argument returns a record whose status and
  title are exactly the status code and the category label of the pair.
\<close>

theorem status_and_title_of_every_constructor:
  "status (badRequest i t d e None) = 400 \<and> title (badRequest i t d e None) = ''Bad Request'' \<and>
   status (internalServerError i t d e None) = 500 \<and> title (internalServerError i t d e None) = ''Internal Server Error'' \<and>
   status (preconditionFailed i t d e None) = 412 \<and> title (preconditionFailed i t d e None) = ''Precondition Failed'' \<and>
   status (unprocessableContent i t d e None) = 422 \<and> title (unprocessableContent i t d e None) = ''Unprocessable Content'' \<and>
   status (conflict i t d None) = 409 \<and> title (conflict i t d None) = ''Conflict'' \<and>
   status (forbidden i t d None) = 403 \<and> title (forbidden i t d None) = ''Forbidden'' \<and>
   status (gone i t d None) = 410 \<and> title (gone i t d None) = ''Gone'' \<and>
   status (methodNotAllowed i t d None) = 405 \<and> title (methodNotAllowed i t d None) = ''Method Not Allowed'' \<and>
   status (notAcceptable i t d None) = 406 \<and> title (notAcceptable i t d None) = ''Not Acceptable'' \<and>
   status (notFound i t d None) = 404 \<and> title (notFound i t d None) = ''Not Found'' \<and>
   status (notImplemented i t d None) = 501 \<and> title (notImplemented i t d None) = ''Not Implemented'' \<and>
   status (paymentRequired i t d None) = 402 \<and> title (paymentRequired i t d None) = ''Payment Required'' \<and>
   status (preconditionRequired i t d None) = 428 \<and> title (preconditionRequired i t d None) = ''Precondition Required'' \<and>
   status (requestTimeout i t d None) = 408 \<and> title (requestTimeout i t d None) = ''Request Timeout'' \<and>
   status (serviceUnavailable i t d None) = 503 \<and> title (serviceUnavailable i t d None) = ''Service Unavailable'' \<and>
   status (tooManyRequests i t d None) = 429 \<and> title (tooManyRequests i t d None) = ''Too Many Requests'' \<and>
   status (unauthorized i t d None) = 401 \<and> title (unauthorized i t d None) = ''Unauthorized'' \<and>
   status (unavailableForLegalReasons i t d None) = 451 \<and> title (unavailableForLegalReasons i t d None) = ''Unavailable For Legal Reasons'' \<and>
   status (unsupportedMediaType i t d None) = 415 \<and> title (unsupportedMediaType i t d None) = ''Unsupported Media Type''"
  by (simp add: errors_ctor_defs plain_ctor_defs buildProblem_def)

section \<open>Presence of the extensions field\<close>

text \<open>
  C2. The extensions field of the returned record is present if and only if a field-errors
  map or a present extension bag was supplied. The field-errors argument of the four
  constructors that take one is not optional, so one is supplied on every call of them
  and their extensions is present whatever the extension argument is. For the fifteen
  other constructors extensions is present exactly when the extension argument is
  present; in particular an absent extension argument gives an absent extensions.
\<close>

theorem extensions_present_iff_supplied:
  "extensions (badRequest i t d e m) \<noteq> None \<and>
   extensions (internalServerError i t d e m) \<noteq> None \<and>
   extensions (preconditionFailed i t d e m) \<noteq> None \<and>
   extensions (unprocessableContent i t d e m) \<noteq> None \<and>
   (extensions (conflict i t d m) \<noteq> None) = (m \<noteq> None) \<and>
   (extensions (forbidden i t d m) \<noteq> None) = (m \<noteq> None) \<and>
   (extensions (gone i t d m) \<noteq> None) = (m \<noteq> None) \<and>
   (extensions (methodNotAllowed i t d m) \<noteq> None) = (m \<noteq> None) \<and>
   (extensions (notAcceptable i t d m) \<noteq> None) = (m \<noteq> None) \<and>
   (extensions (notFound i t d m) \<noteq> None) = (m \<noteq> None) \<and>
   (extensions (notImplemented i t d m) \<noteq> None) = (m \<noteq> None) \<and>
   (extensions (paymentRequired i t d m) \<noteq> None) = (m \<noteq> None) \<and>
   (extensions (preconditionRequired i t d m) \<noteq> None) = (m \<noteq> None) \<and>
   (extensions (requestTimeout i t d m) \<noteq> None) = (m \<noteq> None) \<and>
   (extensions (serviceUnavailable i t d m) \<noteq> None) = (m \<noteq> None) \<and>
   (extensions (tooManyRequests i t d m) \<noteq> None) = (m \<noteq> None) \<and>
   (extensions (unauthorized i t d m) \<noteq> None) = (m \<noteq> None) \<and>
   (extensions (unavailableForLegalReasons i t d m) \<noteq> None) = (m \<noteq> None) \<and>
   (extensions (unsupportedMediaType i t d m) \<noteq> None) = (m \<noteq> None) \<and>
   extensions (conflict i t d None) = None \<and>
   extensions (forbidden i t d None) = None \<and>
   extensions (gone i t d None) = None \<and>
   extensions (methodNotAllowed i t d None) = None \<and>
   extensions (notAcceptable i t d None) = None \<and>
   extensions (notFound i t d None) = None \<and>
   extensions (notImplemented i t d None) = None \<and>
   extensions (paymentRequired i t d None) = None \<and>
   extensions (preconditionRequired i t d None) = None \<and>
   extensions (requestTimeout i t d None) = None \<and>
   extensions (serviceUnavailable i t d None) = None \<and>
   extensions (tooManyRequests i t d None) = None \<and>
   extensions (unauthorized i t d None) = None \<and>
   extensions (unavailableForLegalReasons i t d None) = None \<and>
   extensions (unsupportedMediaType i t d None) = None"
  by (cases m)
     (simp_all add: errors_ctor_defs plain_ctor_defs buildProblem_def resolveExtensions_simps
        some_def)

section \<open>Merging the field-errors map and the extension bag\<close>

text \<open>
  C4. For each of the four constructors that take a field-errors map, a field-errors map
  \<open>e\<close> and an absent extension argument give a record whose extensions is present and is
  exactly the one-entry mapping from \<^verbatim>\<open>errors\<close> to \<open>e\<close>.
\<close>

theorem errors_only_extensions:
  "extensions (badRequest i t d e None) = Some [''errors'' \<mapsto> JObj e] \<and>
   extensions (internalServerError i t d e None) = Some [''errors'' \<mapsto> JObj e] \<and>
   extensions (preconditionFailed i t d e None) = Some [''errors'' \<mapsto> JObj e] \<and>
   extensions (unprocessableContent i t d e None) = Some [''errors'' \<mapsto> JObj e]"
  by (simp add: errors_ctor_defs buildProblem_def resolveExtensions_simps
      getExtensionsOrEmpty_simps some_def extensionsErrorKey_def)

text \<open>
  C5. For each of the four constructors that take a field-errors map, a field-errors map
  \<open>e\<close> and a present extension bag \<open>b\<close> that has no \<^verbatim>\<open>errors\<close> key give a record whose
  extensions holds \<open>e\<close> under the key \<^verbatim>\<open>errors\<close> and every entry of \<open>b\<close> beside it, at the
  same level, and nothing else: it is \<open>b\<close> with the one entry added.
\<close>

theorem errors_beside_caller_extensions:
  assumes "''errors'' \<notin> dom b"
  shows
  "extensions (badRequest i t d e (Some b)) = Some (b(''errors'' \<mapsto> JObj e)) \<and>
   extensions (internalServerError i t d e (Some b)) = Some (b(''errors'' \<mapsto> JObj e)) \<and>
   extensions (preconditionFailed i t d e (Some b)) = Some (b(''errors'' \<mapsto> JObj e)) \<and>
   extensions (unprocessableContent i t d e (Some b)) = Some (b(''errors'' \<mapsto> JObj e))"
proof -
  have "[''errors'' \<mapsto> JObj e] ++ b = b(''errors'' \<mapsto> JObj e)"
    using assms by (auto simp: fun_eq_iff map_add_def split: option.splits)
  then show ?thesis
    by (simp add: errors_ctor_defs buildProblem_def resolveExtensions_simps
        getExtensionsOrEmpty_simps some_def extensionsErrorKey_def)
qed

text \<open>
  The example of the spec: errors \<^verbatim>\<open>{"a.b": ["m1","m2"]}\<close> with the bag \<^verbatim>\<open>{"x": 1}\<close>
  gives extensions \<^verbatim>\<open>{ errors: {"a.b": ["m1","m2"]}, x: 1 }\<close>.
\<close>

theorem errors_beside_caller_extensions_witness:
  "''errors'' \<notin> dom [''x'' \<mapsto> JNum 1] \<and>
   extensions (badRequest ''/users'' ''about:blank'' ''Invalid input''
        [''a.b'' \<mapsto> JArr [JStr ''m1'', JStr ''m2'']] (Some [''x'' \<mapsto> JNum 1])) =
     Some [''errors'' \<mapsto> JObj [''a.b'' \<mapsto> JArr [JStr ''m1'', JStr ''m2'']], ''x'' \<mapsto> JNum 1] \<and>
   extensions (internalServerError ''/users'' ''about:blank'' ''Invalid input''
        [''a.b'' \<mapsto> JArr [JStr ''m1'', JStr ''m2'']] (Some [''x'' \<mapsto> JNum 1])) =
     Some [''errors'' \<mapsto> JObj [''a.b'' \<mapsto> JArr [JStr ''m1'', JStr ''m2'']], ''x'' \<mapsto> JNum 1] \<and>
   extensions (preconditionFailed ''/users'' ''about:blank'' ''Invalid input''
        [''a.b'' \<mapsto> JArr [JStr ''m1'', JStr ''m2'']] (Some [''x'' \<mapsto> JNum 1])) =
     Some [''errors'' \<mapsto> JObj [''a.b'' \<mapsto> JArr [JStr ''m1'', JStr ''m2'']], ''x'' \<mapsto> JNum 1] \<and>
   extensions (unprocessableContent ''/users'' ''about:blank'' ''Invalid input''
        [''a.b'' \<mapsto> JArr [JStr ''m1'', JStr ''m2'']] (Some [''x'' \<mapsto> JNum 1])) =
     Some [''errors'' \<mapsto> JObj [''a.b'' \<mapsto> JArr [JStr ''m1'', JStr ''m2'']], ''x'' \<mapsto> JNum 1]"
proof -
  have h: "''errors'' \<notin> dom [''x'' \<mapsto> JNum 1]"
    by simp
  have twist:
    "[''x'' \<mapsto> JNum 1, ''errors'' \<mapsto> v] = [''errors'' \<mapsto> v, ''x'' \<mapsto> JNum 1]" for v
    by (rule fun_upd_twist) simp
  show ?thesis
    using h errors_beside_caller_extensions [OF h, of "''/users''" "''about:blank''"
        "''Invalid input''" "[''a.b'' \<mapsto> JArr [JStr ''m1'', JStr ''m2'']]"]
    by (simp only: twist simp_thms)
qed

text \<open>
  C1. For each of the four constructors that take a field-errors map, when the extension
  bag is present and has itself a key \<^verbatim>\<open>errors\<close>, the extensions of the returned record
  maps \<^verbatim>\<open>errors\<close> to the value of the bag, not to the field-errors map: the keys of the
  caller are applied after the field-errors entry and overwrite it.
\<close>

theorem caller_errors_key_wins:
  assumes "b ''errors'' = Some v"
  shows
  "(\<exists>ext. extensions (badRequest i t d e (Some b)) = Some ext \<and> ext ''errors'' = Some v) \<and>
   (\<exists>ext. extensions (internalServerError i t d e (Some b)) = Some ext \<and> ext ''errors'' = Some v) \<and>
   (\<exists>ext. extensions (preconditionFailed i t d e (Some b)) = Some ext \<and> ext ''errors'' = Some v) \<and>
   (\<exists>ext. extensions (unprocessableContent i t d e (Some b)) = Some ext \<and> ext ''errors'' = Some v)"
  using assms
  by (simp add: errors_ctor_defs buildProblem_def resolveExtensions_simps
      getExtensionsOrEmpty_simps some_def extensionsErrorKey_def map_add_def)

theorem caller_errors_key_wins_witness:
  "[''errors'' \<mapsto> JStr ''mine''] ''errors'' = Some (JStr ''mine'') \<and>
   (\<exists>ext. extensions (badRequest ''/users'' ''about:blank'' ''Invalid input''
        [''user.email'' \<mapsto> JArr [JStr ''must be an email'']]
        (Some [''errors'' \<mapsto> JStr ''mine''])) = Some ext \<and>
      ext ''errors'' = Some (JStr ''mine'')) \<and>
   (\<exists>ext. extensions (internalServerError ''/users'' ''about:blank'' ''Invalid input''
        [''user.email'' \<mapsto> JArr [JStr ''must be an email'']]
        (Some [''errors'' \<mapsto> JStr ''mine''])) = Some ext \<and>
      ext ''errors'' = Some (JStr ''mine'')) \<and>
   (\<exists>ext. extensions (preconditionFailed ''/users'' ''about:blank'' ''Invalid input''
        [''user.email'' \<mapsto> JArr [JStr ''must be an email'']]
        (Some [''errors'' \<mapsto> JStr ''mine''])) = Some ext \<and>
      ext ''errors'' = Some (JStr ''mine'')) \<and>
   (\<exists>ext. extensions (unprocessableContent ''/users'' ''about:blank'' ''Invalid input''
        [''user.email'' \<mapsto> JArr [JStr ''must be an email'']]
        (Some [''errors'' \<mapsto> JStr ''mine''])) = Some ext \<and>
      ext ''errors'' = Some (JStr ''mine''))"
proof -
  have h: "[''errors'' \<mapsto> JStr ''mine''] ''errors'' = Some (JStr ''mine'')"
    by simp
  show ?thesis
    using h caller_errors_key_wins [where b = "[''errors'' \<mapsto> JStr ''mine'']"
        and v = "JStr ''mine''" and i = "''/users''" and t = "''about:blank''"
        and d = "''Invalid input''"
        and e = "[''user.email'' \<mapsto> JArr [JStr ''must be an email'']]"]
    by (simp only: simp_thms)
qed

text \<open>
  C10. Each of the fifteen constructors without a field-errors argument, called with a
  present extension bag \<open>b\<close>, returns a record whose extensions is \<open>b\<close> as a mapping: the
  same keys with the same values, no \<^verbatim>\<open>errors\<close> key or other key added, removed or
  changed.
\<close>

theorem plain_constructor_keeps_bag:
  "extensions (conflict i t d (Some b)) = Some b \<and>
   extensions (forbidden i t d (Some b)) = Some b \<and>
   extensions (gone i t d (Some b)) = Some b \<and>
   extensions (methodNotAllowed i t d (Some b)) = Some b \<and>
   extensions (notAcceptable i t d (Some b)) = Some b \<and>
   extensions (notFound i t d (Some b)) = Some b \<and>
   extensions (notImplemented i t d (Some b)) = Some b \<and>
   extensions (paymentRequired i t d (Some b)) = Some b \<and>
   extensions (preconditionRequired i t d (Some b)) = Some b \<and>
   extensions (requestTimeout i t d (Some b)) = Some b \<and>
   extensions (serviceUnavailable i t d (Some b)) = Some b \<and>
   extensions (tooManyRequests i t d (Some b)) = Some b \<and>
   extensions (unauthorized i t d (Some b)) = Some b \<and>
   extensions (unavailableForLegalReasons i t d (Some b)) = Some b \<and>
   extensions (unsupportedMediaType i t d (Some b)) = Some b"
  by (simp add: plain_ctor_defs buildProblem_def resolveExtensions_simps)

section \<open>A present but empty extension bag\<close>

text \<open>
  C6 as the spec's data model words it: extensions is present only when a field-errors
  map or a non-empty extension bag was supplied. It fails for \<^verbatim>\<open>conflict\<close> called with a
  present, empty bag: \<^verbatim>\<open>resolveExtensions\<close> decides on presence alone and returns the copy
  of the empty object.
\<close>

theorem empty_bag_counterexample:
  "\<not> (extensions (conflict ''/widgets/42'' ''about:blank'' ''Widget not found''
          (Some Map.empty)) \<noteq> None \<longrightarrow>
      (\<exists>b. Some Map.empty = Some b \<and> b \<noteq> (Map.empty :: jsobj)))"
  by (simp add: conflict_def buildProblem_def resolveExtensions_simps)

text \<open>
  C6, amended. For each of the fifteen constructors without a field-errors argument,
  extensions is present only when the extension argument is present, empty or not; and a
  present, empty bag gives a present extensions, the empty mapping. The four constructors
  that take a field-errors map are always given one; with a present, empty bag their
  extensions is the \<^verbatim>\<open>errors\<close> entry alone.
\<close>

theorem extensions_present_only_if_bag_present:
  "extensions (badRequest i t d e (Some Map.empty)) = Some [''errors'' \<mapsto> JObj e] \<and>
   extensions (internalServerError i t d e (Some Map.empty)) = Some [''errors'' \<mapsto> JObj e] \<and>
   extensions (preconditionFailed i t d e (Some Map.empty)) = Some [''errors'' \<mapsto> JObj e] \<and>
   extensions (unprocessableContent i t d e (Some Map.empty)) = Some [''errors'' \<mapsto> JObj e] \<and>
   (extensions (conflict i t d m) \<noteq> None \<longrightarrow> m \<noteq> None) \<and>
   extensions (conflict i t d (Some Map.empty)) = Some Map.empty \<and>
   (extensions (forbidden i t d m) \<noteq> None \<longrightarrow> m \<noteq> None) \<and>
   extensions (forbidden i t d (Some Map.empty)) = Some Map.empty \<and>
   (extensions (gone i t d m) \<noteq> None \<longrightarrow> m \<noteq> None) \<and>
   extensions (gone i t d (Some Map.empty)) = Some Map.empty \<and>
   (extensions (methodNotAllowed i t d m) \<noteq> None \<longrightarrow> m \<noteq> None) \<and>
   extensions (methodNotAllowed i t d (Some Map.empty)) = Some Map.empty \<and>
   (extensions (notAcceptable i t d m) \<noteq> None \<longrightarrow> m \<noteq> None) \<and>
   extensions (notAcceptable i t d (Some Map.empty)) = Some Map.empty \<and>
   (extensions (notFound i t d m) \<noteq> None \<longrightarrow> m \<noteq> None) \<and>
   extensions (notFound i t d (Some Map.empty)) = Some Map.empty \<and>
   (extensions (notImplemented i t d m) \<noteq> None \<longrightarrow> m \<noteq> None) \<and>
   extensions (notImplemented i t d (Some Map.empty)) = Some Map.empty \<and>
   (extensions (paymentRequired i t d m) \<noteq> None \<longrightarrow> m \<noteq> None) \<and>
   extensions (paymentRequired i t d (Some Map.empty)) = Some Map.empty \<and>
   (extensions (preconditionRequired i t d m) \<noteq> None \<longrightarrow> m \<noteq> None) \<and>
   extensions (preconditionRequired i t d (Some Map.empty)) = Some Map.empty \<and>
   (extensions (requestTimeout i t d m) \<noteq> None \<longrightarrow> m \<noteq> None) \<and>
   extensions (requestTimeout i t d (Some Map.empty)) = Some Map.empty \<and>
   (extensions (serviceUnavailable i t d m) \<noteq> None \<longrightarrow> m \<noteq> None) \<and>
   extensions (serviceUnavailable i t d (Some Map.empty)) = Some Map.empty \<and>
   (extensions (tooManyRequests i t d m) \<noteq> None \<longrightarrow> m \<noteq> None) \<and>
   extensions (tooManyRequests i t d (Some Map.empty)) = Some Map.empty \<and>
   (extensions (unauthorized i t d m) \<noteq> None \<longrightarrow> m \<noteq> None) \<and>
   extensions (unauthorized i t d (Some Map.empty)) = Some Map.empty \<and>
   (extensions (unavailableForLegalReasons i t d m) \<noteq> None \<longrightarrow> m \<noteq> None) \<and>
   extensions (unavailableForLegalReasons i t d (Some Map.empty)) = Some Map.empty \<and>
   (extensions (unsupportedMediaType i t d m) \<noteq> None \<longrightarrow> m \<noteq> None) \<and>
   extensions (unsupportedMediaType i t d (Some Map.empty)) = Some Map.empty"
  by (cases m)
     (simp_all add: errors_ctor_defs plain_ctor_defs buildProblem_def resolveExtensions_simps
        getExtensionsOrEmpty_simps some_def extensionsErrorKey_def)

theorem extensions_present_only_if_bag_present_witness:
  "extensions (conflict ''/widgets/42'' ''about:blank'' ''Widget not found''
      (Some [''x'' \<mapsto> JNum 1])) \<noteq> None \<and>
   extensions (forbidden ''/widgets/42'' ''about:blank'' ''Widget not found''
      (Some [''x'' \<mapsto> JNum 1])) \<noteq> None \<and>
   extensions (gone ''/widgets/42'' ''about:blank'' ''Widget not found''
      (Some [''x'' \<mapsto> JNum 1])) \<noteq> None \<and>
   extensions (methodNotAllowed ''/widgets/42'' ''about:blank'' ''Widget not found''
      (Some [''x'' \<mapsto> JNum 1])) \<noteq> None \<and>
   extensions (notAcceptable ''/widgets/42'' ''about:blank'' ''Widget not found''
      (Some [''x'' \<mapsto> JNum 1])) \<noteq> None \<and>
   extensions (notFound ''/widgets/42'' ''about:blank'' ''Widget not found''
      (Some [''x'' \<mapsto> JNum 1])) \<noteq> None \<and>
   extensions (notImplemented ''/widgets/42'' ''about:blank'' ''Widget not found''
      (Some [''x'' \<mapsto> JNum 1])) \<noteq> None \<and>
   extensions (paymentRequired ''/widgets/42'' ''about:blank'' ''Widget not found''
      (Some [''x'' \<mapsto> JNum 1])) \<noteq> None \<and>
   extensions (preconditionRequired ''/widgets/42'' ''about:blank'' ''Widget not found''
      (Some [''x'' \<mapsto> JNum 1])) \<noteq> None \<and>
   extensions (requestTimeout ''/widgets/42'' ''about:blank'' ''Widget not found''
      (Some [''x'' \<mapsto> JNum 1])) \<noteq> None \<and>
   extensions (serviceUnavailable ''/widgets/42'' ''about:blank'' ''Widget not found''
      (Some [''x'' \<mapsto> JNum 1])) \<noteq> None \<and>
   extensions (tooManyRequests ''/widgets/42'' ''about:blank'' ''Widget not found''
      (Some [''x'' \<mapsto> JNum 1])) \<noteq> None \<and>
   extensions (unauthorized ''/widgets/42'' ''about:blank'' ''Widget not found''
      (Some [''x'' \<mapsto> JNum 1])) \<noteq> None \<and>
   extensions (unavailableForLegalReasons ''/widgets/42'' ''about:blank'' ''Widget not found''
      (Some [''x'' \<mapsto> JNum 1])) \<noteq> None \<and>
   extensions (unsupportedMediaType ''/widgets/42'' ''about:blank'' ''Widget not found''
      (Some [''x'' \<mapsto> JNum 1])) \<noteq> None \<and>
   Some [''x'' \<mapsto> JNum 1] \<noteq> None"
proof -
  have present:
    "extensions (conflict ''/widgets/42'' ''about:blank'' ''Widget not found''
        (Some [''x'' \<mapsto> JNum 1])) \<noteq> None \<and>
     extensions (forbidden ''/widgets/42'' ''about:blank'' ''Widget not found''
        (Some [''x'' \<mapsto> JNum 1])) \<noteq> None \<and>
     extensions (gone ''/widgets/42'' ''about:blank'' ''Widget not found''
        (Some [''x'' \<mapsto> JNum 1])) \<noteq> None \<and>
     extensions (methodNotAllowed ''/widgets/42'' ''about:blank'' ''Widget not found''
        (Some [''x'' \<mapsto> JNum 1])) \<noteq> None \<and>
     extensions (notAcceptable ''/widgets/42'' ''about:blank'' ''Widget not found''
        (Some [''x'' \<mapsto> JNum 1])) \<noteq> None \<and>
     extensions (notFound ''/widgets/42'' ''about:blank'' ''Widget not found''
        (Some [''x'' \<mapsto> JNum 1])) \<noteq> None \<and>
     extensions (notImplemented ''/widgets/42'' ''about:blank'' ''Widget not found''
        (Some [''x'' \<mapsto> JNum 1])) \<noteq> None \<and>
     extensions (paymentRequired ''/widgets/42'' ''about:blank'' ''Widget not found''
        (Some [''x'' \<mapsto> JNum 1])) \<noteq> None \<and>
     extensions (preconditionRequired ''/widgets/42'' ''about:blank'' ''Widget not found''
        (Some [''x'' \<mapsto> JNum 1])) \<noteq> None \<and>
     extensions (requestTimeout ''/widgets/42'' ''about:blank'' ''Widget not found''
        (Some [''x'' \<mapsto> JNum 1])) \<noteq> None \<and>
     extensions (serviceUnavailable ''/widgets/42'' ''about:blank'' ''Widget not found''
        (Some [''x'' \<mapsto> JNum 1])) \<noteq> None \<and>
     extensions (tooManyRequests ''/widgets/42'' ''about:blank'' ''Widget not found''
        (Some [''x'' \<mapsto> JNum 1])) \<noteq> None \<and>
     extensions (unauthorized ''/widgets/42'' ''about:blank'' ''Widget not found''
        (Some [''x'' \<mapsto> JNum 1])) \<noteq> None \<and>
     extensions (unavailableForLegalReasons ''/widgets/42'' ''about:blank'' ''Widget not found''
        (Some [''x'' \<mapsto> JNum 1])) \<noteq> None \<and>
     extensions (unsupportedMediaType ''/widgets/42'' ''about:blank'' ''Widget not found''
        (Some [''x'' \<mapsto> JNum 1])) \<noteq> None"
    by (simp add: plain_ctor_defs buildProblem_def resolveExtensions_simps)
  show ?thesis
    using present extensions_present_only_if_bag_present [where i = "''/widgets/42''"
        and t = "''about:blank''" and d = "''Widget not found''"
        and m = "Some [''x'' \<mapsto> JNum 1]"]
    by blast
qed

section \<open>Facts about the store\<close>

lemma spread_Some: "b < length s \<Longrightarrow> spread s b = Some (length s, s @ [s ! b])"
  by (simp add: spread_def props_def alloc_def)

lemma getExtensionsOrEmpty_st_simps:
  "getExtensionsOrEmpty_st s None = Some (length s, s @ [Map.empty])"
  "b < length s \<Longrightarrow>
     getExtensionsOrEmpty_st s (Some b) = Some (Suc (length s), s @ [Map.empty, s ! b])"
  by (simp_all add: getExtensionsOrEmpty_st_def match_def alloc_def spread_Some nth_append)

lemma resolveExtensions_st_simps:
  "resolveExtensions_st s None = Some (None, s)"
  "b < length s \<Longrightarrow> resolveExtensions_st s (Some b) = Some (Some (length s), s @ [s ! b])"
  by (simp_all add: resolveExtensions_st_def match_def spread_Some)

lemma buildProblem_st_simps:
  "buildProblem_st s st ti ty i d None =
     Some (\<lparr>detail = d, extensions = None, instance = i, status = st, title = ti,
             type = ty\<rparr>, s)"
  "b < length s \<Longrightarrow> buildProblem_st s st ti ty i d (Some b) =
     Some (\<lparr>detail = d, extensions = Some (length s), instance = i, status = st, title = ti,
             type = ty\<rparr>, s @ [s ! b])"
  by (simp_all add: buildProblem_st_def resolveExtensions_st_simps)

lemmas errors_ctor_st_defs =
  badRequest_st_def internalServerError_st_def preconditionFailed_st_def
  unprocessableContent_st_def

lemmas plain_ctor_st_defs =
  conflict_st_def forbidden_st_def gone_st_def methodNotAllowed_st_def notAcceptable_st_def
  notFound_st_def notImplemented_st_def paymentRequired_st_def preconditionRequired_st_def
  requestTimeout_st_def serviceUnavailable_st_def tooManyRequests_st_def unauthorized_st_def
  unavailableForLegalReasons_st_def unsupportedMediaType_st_def

lemmas store_eval =
  getExtensionsOrEmpty_st_simps buildProblem_st_simps props_def alloc_def mutate_def
  readExtensions_def some_def extensionsErrorKey_def nth_append nth_list_update

section \<open>No aliasing of the caller's extension bag\<close>



section \<open>The store model and the value model agree\<close>

lemma absObj_simps:
  "absObj \<alpha> Map.empty = Map.empty"
  "absObj \<alpha> (x ++ y) = absObj \<alpha> x ++ absObj \<alpha> y"
  "absObj \<alpha> (x(k \<mapsto> v)) = (absObj \<alpha> x)(k \<mapsto> \<alpha> v)"
  by (auto simp: absObj_def map_add_def fun_eq_iff split: option.splits)

lemma absMaybe_simps:
  "absMaybe \<alpha> s None = None"
  "b < length s \<Longrightarrow> absMaybe \<alpha> s (Some b) = Some (absObj \<alpha> (s ! b))"
  by (simp_all add: absMaybe_def props_def)

lemmas value_eval =
  buildProblem_def resolveExtensions_simps getExtensionsOrEmpty_simps absProblem_def
  absObj_simps absMaybe_simps

text \<open>
  Every constructor of the store model returns, read as values, what the constructor of
  the value model returns on the arguments read as values.
\<close>

lemma plain_constructors_agree:
  assumes "allocated s m"
  shows
  "(\<exists>p s'. conflict_st s i t d m = Some (p, s') \<and>
      absProblem \<alpha> s' p = conflict i t d (absMaybe \<alpha> s m)) \<and>
   (\<exists>p s'. forbidden_st s i t d m = Some (p, s') \<and>
      absProblem \<alpha> s' p = forbidden i t d (absMaybe \<alpha> s m)) \<and>
   (\<exists>p s'. gone_st s i t d m = Some (p, s') \<and>
      absProblem \<alpha> s' p = gone i t d (absMaybe \<alpha> s m)) \<and>
   (\<exists>p s'. methodNotAllowed_st s i t d m = Some (p, s') \<and>
      absProblem \<alpha> s' p = methodNotAllowed i t d (absMaybe \<alpha> s m)) \<and>
   (\<exists>p s'. notAcceptable_st s i t d m = Some (p, s') \<and>
      absProblem \<alpha> s' p = notAcceptable i t d (absMaybe \<alpha> s m)) \<and>
   (\<exists>p s'. notFound_st s i t d m = Some (p, s') \<and>
      absProblem \<alpha> s' p = notFound i t d (absMaybe \<alpha> s m)) \<and>
   (\<exists>p s'. notImplemented_st s i t d m = Some (p, s') \<and>
      absProblem \<alpha> s' p = notImplemented i t d (absMaybe \<alpha> s m)) \<and>
   (\<exists>p s'. paymentRequired_st s i t d m = Some (p, s') \<and>
      absProblem \<alpha> s' p = paymentRequired i t d (absMaybe \<alpha> s m)) \<and>
   (\<exists>p s'. preconditionRequired_st s i t d m = Some (p, s') \<and>
      absProblem \<alpha> s' p = preconditionRequired i t d (absMaybe \<alpha> s m)) \<and>
   (\<exists>p s'. requestTimeout_st s i t d m = Some (p, s') \<and>
      absProblem \<alpha> s' p = requestTimeout i t d (absMaybe \<alpha> s m)) \<and>
   (\<exists>p s'. serviceUnavailable_st s i t d m = Some (p, s') \<and>
      absProblem \<alpha> s' p = serviceUnavailable i t d (absMaybe \<alpha> s m)) \<and>
   (\<exists>p s'. tooManyRequests_st s i t d m = Some (p, s') \<and>
      absProblem \<alpha> s' p = tooManyRequests i t d (absMaybe \<alpha> s m)) \<and>
   (\<exists>p s'. unauthorized_st s i t d m = Some (p, s') \<and>
      absProblem \<alpha> s' p = unauthorized i t d (absMaybe \<alpha> s m)) \<and>
   (\<exists>p s'. unavailableForLegalReasons_st s i t d m = Some (p, s') \<and>
      absProblem \<alpha> s' p = unavailableForLegalReasons i t d (absMaybe \<alpha> s m)) \<and>
   (\<exists>p s'. unsupportedMediaType_st s i t d m = Some (p, s') \<and>
      absProblem \<alpha> s' p = unsupportedMediaType i t d (absMaybe \<alpha> s m))"
proof (cases m)
  case None
  then show ?thesis
    by (simp add: plain_ctor_st_defs plain_ctor_defs store_eval value_eval)
next
  case (Some b)
  with assms have "b < length s"
    by (simp add: allocated_def)
  with Some show ?thesis
    by (simp add: plain_ctor_st_defs plain_ctor_defs store_eval value_eval)
qed

lemma errors_constructors_agree:
  assumes "allocated s m" and "\<alpha> (RRef e) = JObj eo"
  shows
  "(\<exists>p s'. badRequest_st s i t d e m = Some (p, s') \<and>
      absProblem \<alpha> s' p = badRequest i t d eo (absMaybe \<alpha> s m)) \<and>
   (\<exists>p s'. internalServerError_st s i t d e m = Some (p, s') \<and>
      absProblem \<alpha> s' p = internalServerError i t d eo (absMaybe \<alpha> s m)) \<and>
   (\<exists>p s'. preconditionFailed_st s i t d e m = Some (p, s') \<and>
      absProblem \<alpha> s' p = preconditionFailed i t d eo (absMaybe \<alpha> s m)) \<and>
   (\<exists>p s'. unprocessableContent_st s i t d e m = Some (p, s') \<and>
      absProblem \<alpha> s' p = unprocessableContent i t d eo (absMaybe \<alpha> s m))"
proof (cases m)
  case None
  with assms(2) show ?thesis
    by (simp add: errors_ctor_st_defs errors_ctor_defs store_eval value_eval)
next
  case (Some b)
  with assms have "b < length s"
    by (simp add: allocated_def)
  with Some assms(2) show ?thesis
    by (simp add: errors_ctor_st_defs errors_ctor_defs store_eval value_eval)
qed

section \<open>Facts about the spread of an object with accessors\<close>

lemma createDataProperty_data:
  "list_all isData target \<Longrightarrow> list_all isData (createDataProperty target k v)"
  by (induction target) (auto simp: createDataProperty_def list_all_iff)

lemma map_of_createDataProperty:
  "map_of (createDataProperty target k v) = (map_of target)(k \<mapsto> Data v)"
proof (cases "k \<in> fst ` set target")
  case True
  have "map_of (map (\<lambda>(k', p). if k' = k then (k', Data v) else (k', p)) xs) =
        (map_of xs)(k \<mapsto> Data v)" if "k \<in> fst ` set xs" for xs
    using that
  proof (induction xs)
    case Nil
    then show ?case by simp
  next
    case (Cons x xs)
    obtain k' p where x: "x = (k', p)"
      by (cases x)
    show ?case
    proof (cases "k \<in> fst ` set xs")
      case True
      with Cons.IH x show ?thesis
        by (auto simp: fun_eq_iff)
    next
      case False
      then have "map (\<lambda>(k', p). if k' = k then (k', Data v) else (k', p)) xs = xs"
        by (induction xs) auto
      with False Cons.prems x show ?thesis
        by (auto simp: fun_eq_iff)
    qed
  qed
  with True show ?thesis
    by (simp add: createDataProperty_def)
next
  case False
  then have "map_of target k = None"
    by (simp add: map_of_eq_None_iff)
  with False show ?thesis
    by (auto simp: createDataProperty_def fun_eq_iff map_add_def split: option.splits)
qed

text \<open>
  The spread of a plain data object onto plain data returns and gives plain data; as a
  mapping it is the target overwritten by the source, what \<open>++\<close> is on maps.
\<close>

lemma copyDataProperties_plain:
  "list_all isData source \<Longrightarrow> list_all isData target \<Longrightarrow>
   \<exists>copy. copyDataProperties target source = Inr copy \<and> list_all isData copy"
proof (induction source arbitrary: target)
  case Nil
  then show ?case by simp
next
  case (Cons x source)
  from Cons.prems(1) obtain k v where x: "x = (k, Data v)" and src: "list_all isData source"
    by (cases x rule: isData.cases) auto
  from Cons.prems(2) have "list_all isData (createDataProperty target k v)"
    by (rule createDataProperty_data)
  from Cons.IH [OF src this] x show ?case
    by simp
qed

lemma copyDataProperties_map_of:
  "list_all isData source \<Longrightarrow> distinct (map fst source) \<Longrightarrow>
   copyDataProperties target source = Inr copy \<Longrightarrow>
   map_of copy = map_of target ++ map_of source"
proof (induction source arbitrary: target)
  case Nil
  then show ?case by simp
next
  case (Cons x source)
  from Cons.prems(1) obtain k v where x: "x = (k, Data v)" and src: "list_all isData source"
    by (cases x rule: isData.cases) auto
  from Cons.prems(2) x have fresh: "map_of source k = None" and dist: "distinct (map fst source)"
    by (simp_all add: map_of_eq_None_iff)
  from Cons.prems(3) x have "copyDataProperties (createDataProperty target k v) source = Inr copy"
    by simp
  from Cons.IH [OF src dist this]
  have "map_of copy = (map_of target)(k \<mapsto> Data v) ++ map_of source"
    unfolding map_of_createDataProperty .
  also have "\<dots> = map_of target ++ map_of ((k, Data v) # source)"
    using fresh by (auto simp: fun_eq_iff map_add_def split: option.splits)
  finally show ?case
    unfolding x .
qed

lemma spreadOnto_plain:
  assumes "b < length s" and "list_all isData (s ! b)" and "list_all isData target"
  shows "\<exists>copy. spreadOnto s target b = Inr copy \<and> list_all isData copy"
  using assms copyDataProperties_plain [of "s ! b" target]
  by (auto simp: spreadOnto_def props_acc_def)

lemma spread_acc_plain:
  assumes "b < length s" and "list_all isData (s ! b)"
  shows "\<exists>copy. spread_acc s b = Inr (length s, s @ [copy]) \<and> list_all isData copy"
  using spreadOnto_plain [OF assms, of "[]"]
  by (auto simp: spread_acc_def alloc_acc_def)

text \<open>On a plain data object the spread is a copy: the new object has the same entries.\<close>

lemma spread_acc_copies:
  assumes "b < length s" and "list_all isData (s ! b)" and "distinct (map fst (s ! b))"
  shows "\<exists>copy. spread_acc s b = Inr (length s, s @ [copy]) \<and> map_of copy = map_of (s ! b)"
proof -
  from spread_acc_plain [OF assms(1,2)] obtain copy where
    c: "spread_acc s b = Inr (length s, s @ [copy])"
    by blast
  with assms(1) have "copyDataProperties [] (s ! b) = Inr copy"
    by (auto simp: spread_acc_def spreadOnto_def props_acc_def alloc_acc_def
        split: sum.splits)
  from copyDataProperties_map_of [OF assms(2,3) this] c show ?thesis
    by simp
qed

lemma buildProblem_acc_extends:
  assumes "plainBag s m"
  shows "\<exists>r new. buildProblem_acc s st ti ty i d m =
           Inr (\<lparr>detail = d, extensions = r, instance = i, status = st, title = ti,
                  type = ty\<rparr>, s @ new)"
proof (cases m)
  case None
  then show ?thesis
    by (simp add: buildProblem_acc_def resolveExtensions_acc_def match_def)
next
  case (Some b)
  with assms have "b < length s" and "list_all isData (s ! b)"
    by (simp_all add: plainBag_def)
  from spread_acc_plain [OF this] Some show ?thesis
    by (auto simp: buildProblem_acc_def resolveExtensions_acc_def match_def)
qed

lemma getExtensionsOrEmpty_acc_extends:
  assumes "plainBag s m"
  shows "\<exists>rest new. getExtensionsOrEmpty_acc s m = Inr (rest, s @ new) \<and>
           rest < length (s @ new) \<and> list_all isData ((s @ new) ! rest)"
proof (cases m)
  case None
  have "getExtensionsOrEmpty_acc s None = Inr (length s, s @ [[]])"
    by (simp add: getExtensionsOrEmpty_acc_def match_def alloc_acc_def)
  with None show ?thesis
    by (intro exI [of _ "length s"] exI [of _ "[[]]"]) simp
next
  case (Some b)
  with assms have "b < length (s @ [[]])" and "list_all isData ((s @ [[]]) ! b)"
    by (simp_all add: plainBag_def nth_append)
  from spread_acc_plain [OF this] obtain copy where
    c: "spread_acc (s @ [[]]) b = Inr (Suc (length s), s @ [[], copy])" "list_all isData copy"
    by auto
  then have "getExtensionsOrEmpty_acc s (Some b) = Inr (Suc (length s), s @ [[], copy])"
    by (simp add: getExtensionsOrEmpty_acc_def match_def alloc_acc_def)
  with Some c(2) show ?thesis
    by (intro exI [of _ "Suc (length s)"] exI [of _ "[[], copy]"]) (simp add: nth_append)
qed

text \<open>The body that the four constructors with a field-errors map share.\<close>

lemma errors_body_extends:
  assumes "plainBag s m"
  shows "\<exists>r new.
     (case getExtensionsOrEmpty_acc s m of
        Inl e \<Rightarrow> Inl e
      | Inr (rest, s1) \<Rightarrow>
          (case spreadOnto s1 [(extensionsErrorKey, Data (RRef errors))] rest of
             Inl e \<Rightarrow> Inl e
           | Inr literal \<Rightarrow>
               (let (extensionsWithErrors, s2) = alloc_acc s1 literal
                in buildProblem_acc s2 st ti ty i d (some extensionsWithErrors)))) =
       Inr (\<lparr>detail = d, extensions = r, instance = i, status = st, title = ti,
              type = ty\<rparr>, s @ new)"
proof -
  from getExtensionsOrEmpty_acc_extends [OF assms] obtain rest new1 where
    g: "getExtensionsOrEmpty_acc s m = Inr (rest, s @ new1)" and
    rest: "rest < length (s @ new1)" "list_all isData ((s @ new1) ! rest)"
    by blast
  from spreadOnto_plain [OF rest, of "[(extensionsErrorKey, Data (RRef errors))]"]
  obtain literal where
    l: "spreadOnto (s @ new1) [(extensionsErrorKey, Data (RRef errors))] rest = Inr literal"
    and ld: "list_all isData literal"
    by auto
  have "plainBag ((s @ new1) @ [literal]) (Some (length (s @ new1)))"
    using ld by (simp add: plainBag_def)
  from buildProblem_acc_extends [OF this, where st = st and ti = ti and ty = ty
      and i = i and d = d]
  obtain r new2 where
    b: "buildProblem_acc ((s @ new1) @ [literal]) st ti ty i d (Some (length (s @ new1))) =
          Inr (\<lparr>detail = d, extensions = r, instance = i, status = st, title = ti,
                 type = ty\<rparr>, ((s @ new1) @ [literal]) @ new2)"
    by blast
  have "((s @ new1) @ [literal]) @ new2 = s @ (new1 @ [literal] @ new2)"
    by simp
  with g l b show ?thesis
    by (simp add: alloc_acc_def some_def del: append_assoc)
qed

lemma buildProblem_acc_plain:
  assumes "plainBag s m"
  shows "\<exists>r s'. buildProblem_acc s st ti ty i d m =
           Inr (\<lparr>detail = d, extensions = r, instance = i, status = st, title = ti,
                  type = ty\<rparr>, s') \<and>
         take (length s) s' = s"
  using buildProblem_acc_extends [OF assms, where st = st and ti = ti and ty = ty
      and i = i and d = d]
  by auto

lemma errors_body_plain:
  assumes "plainBag s m"
  shows "\<exists>r s'.
     (case getExtensionsOrEmpty_acc s m of
        Inl e \<Rightarrow> Inl e
      | Inr (rest, s1) \<Rightarrow>
          (case spreadOnto s1 [(extensionsErrorKey, Data (RRef errors))] rest of
             Inl e \<Rightarrow> Inl e
           | Inr literal \<Rightarrow>
               (let (extensionsWithErrors, s2) = alloc_acc s1 literal
                in buildProblem_acc s2 st ti ty i d (some extensionsWithErrors)))) =
       Inr (\<lparr>detail = d, extensions = r, instance = i, status = st, title = ti,
              type = ty\<rparr>, s') \<and>
     take (length s) s' = s"
proof -
  from errors_body_extends [OF assms, where errors = errors and st = st and ti = ti
      and ty = ty and i = i and d = d]
  obtain r new where
    "(case getExtensionsOrEmpty_acc s m of
        Inl e \<Rightarrow> Inl e
      | Inr (rest, s1) \<Rightarrow>
          (case spreadOnto s1 [(extensionsErrorKey, Data (RRef errors))] rest of
             Inl e \<Rightarrow> Inl e
           | Inr literal \<Rightarrow>
               (let (extensionsWithErrors, s2) = alloc_acc s1 literal
                in buildProblem_acc s2 st ti ty i d (some extensionsWithErrors)))) =
       Inr (\<lparr>detail = d, extensions = r, instance = i, status = st, title = ti,
              type = ty\<rparr>, s @ new)"
    by blast
  then show ?thesis
    by (intro exI [of _ r] exI [of _ "s @ new"]) simp
qed

lemmas errors_ctor_acc_defs =
  badRequest_acc_def internalServerError_acc_def preconditionFailed_acc_def
  unprocessableContent_acc_def

lemmas plain_ctor_acc_defs =
  conflict_acc_def forbidden_acc_def gone_acc_def methodNotAllowed_acc_def
  notAcceptable_acc_def notFound_acc_def notImplemented_acc_def paymentRequired_acc_def
  preconditionRequired_acc_def requestTimeout_acc_def serviceUnavailable_acc_def
  tooManyRequests_acc_def unauthorized_acc_def unavailableForLegalReasons_acc_def
  unsupportedMediaType_acc_def

section \<open>Totality and purity\<close>

text \<open>
  C9 as the spec words it: every constructor returns a record on every well-typed input
  and has no failure mode. It fails for \<^verbatim>\<open>tooManyRequests\<close> called with a bag that has an
  accessor property whose getter throws: the spread in \<^verbatim>\<open>resolveExtensions\<close> runs the
  getter, nothing catches the exception, and the call ends with it instead of returning
  a record.
\<close>

theorem throwing_getter_counterexample:
  "tooManyRequests_acc [[(''boom'', Accessor (Throws (RStr ''boom'')))]]
     ''/users'' ''about:blank'' ''Invalid input'' (Some 0) =
   Inl (Thrown (RStr ''boom''))"
  by (simp add: tooManyRequests_acc_def buildProblem_acc_def resolveExtensions_acc_def
      match_def spread_acc_def spreadOnto_def props_acc_def)

text \<open>
  C9, amended. The shared builder and every constructor return on every input whose
  extension argument is absent or a plain data object of the store, for any strings and
  any field-errors reference: no exception is thrown there. The record returned has its
  \<^verbatim>\<open>detail\<close>, \<^verbatim>\<open>instance\<close> and \<^verbatim>\<open>type\<close> set to the arguments and its \<^verbatim>\<open>status\<close> and \<^verbatim>\<open>title\<close>
  to the constructor's pair, and no object that existed before the call is changed: the
  store is only extended by the new objects.
\<close>

theorem constructors_total_on_plain_data:
  assumes "plainBag s m"
  shows
  "(\<exists>r s'. buildProblem_acc s st ti t i d m =
        Inr (\<lparr>detail = d, extensions = r, instance = i, status = st,
               title = ti, type = t\<rparr>, s') \<and>
      take (length s) s' = s) \<and>
   (\<exists>r s'. badRequest_acc s i t d e m =
        Inr (\<lparr>detail = d, extensions = r, instance = i, status = 400,
               title = ''Bad Request'', type = t\<rparr>, s') \<and>
      take (length s) s' = s) \<and>
   (\<exists>r s'. internalServerError_acc s i t d e m =
        Inr (\<lparr>detail = d, extensions = r, instance = i, status = 500,
               title = ''Internal Server Error'', type = t\<rparr>, s') \<and>
      take (length s) s' = s) \<and>
   (\<exists>r s'. preconditionFailed_acc s i t d e m =
        Inr (\<lparr>detail = d, extensions = r, instance = i, status = 412,
               title = ''Precondition Failed'', type = t\<rparr>, s') \<and>
      take (length s) s' = s) \<and>
   (\<exists>r s'. unprocessableContent_acc s i t d e m =
        Inr (\<lparr>detail = d, extensions = r, instance = i, status = 422,
               title = ''Unprocessable Content'', type = t\<rparr>, s') \<and>
      take (length s) s' = s) \<and>
   (\<exists>r s'. conflict_acc s i t d m =
        Inr (\<lparr>detail = d, extensions = r, instance = i, status = 409,
               title = ''Conflict'', type = t\<rparr>, s') \<and>
      take (length s) s' = s) \<and>
   (\<exists>r s'. forbidden_acc s i t d m =
        Inr (\<lparr>detail = d, extensions = r, instance = i, status = 403,
               title = ''Forbidden'', type = t\<rparr>, s') \<and>
      take (length s) s' = s) \<and>
   (\<exists>r s'. gone_acc s i t d m =
        Inr (\<lparr>detail = d, extensions = r, instance = i, status = 410,
               title = ''Gone'', type = t\<rparr>, s') \<and>
      take (length s) s' = s) \<and>
   (\<exists>r s'. methodNotAllowed_acc s i t d m =
        Inr (\<lparr>detail = d, extensions = r, instance = i, status = 405,
               title = ''Method Not Allowed'', type = t\<rparr>, s') \<and>
      take (length s) s' = s) \<and>
   (\<exists>r s'. notAcceptable_acc s i t d m =
        Inr (\<lparr>detail = d, extensions = r, instance = i, status = 406,
               title = ''Not Acceptable'', type = t\<rparr>, s') \<and>
      take (length s) s' = s) \<and>
   (\<exists>r s'. notFound_acc s i t d m =
        Inr (\<lparr>detail = d, extensions = r, instance = i, status = 404,
               title = ''Not Found'', type = t\<rparr>, s') \<and>
      take (length s) s' = s) \<and>
   (\<exists>r s'. notImplemented_acc s i t d m =
        Inr (\<lparr>detail = d, extensions = r, instance = i, status = 501,
               title = ''Not Implemented'', type = t\<rparr>, s') \<and>
      take (length s) s' = s) \<and>
   (\<exists>r s'. paymentRequired_acc s i t d m =
        Inr (\<lparr>detail = d, extensions = r, instance = i, status = 402,
               title = ''Payment Required'', type = t\<rparr>, s') \<and>
      take (length s) s' = s) \<and>
   (\<exists>r s'. preconditionRequired_acc s i t d m =
        Inr (\<lparr>detail = d, extensions = r, instance = i, status = 428,
               title = ''Precondition Required'', type = t\<rparr>, s') \<and>
      take (length s) s' = s) \<and>
   (\<exists>r s'. requestTimeout_acc s i t d m =
        Inr (\<lparr>detail = d, extensions = r, instance = i, status = 408,
               title = ''Request Timeout'', type = t\<rparr>, s') \<and>
      take (length s) s' = s) \<and>
   (\<exists>r s'. serviceUnavailable_acc s i t d m =
        Inr (\<lparr>detail = d, extensions = r, instance = i, status = 503,
               title = ''Service Unavailable'', type = t\<rparr>, s') \<and>
      take (length s) s' = s) \<and>
   (\<exists>r s'. tooManyRequests_acc s i t d m =
        Inr (\<lparr>detail = d, extensions = r, instance = i, status = 429,
               title = ''Too Many Requests'', type = t\<rparr>, s') \<and>
      take (length s) s' = s) \<and>
   (\<exists>r s'. unauthorized_acc s i t d m =
        Inr (\<lparr>detail = d, extensions = r, instance = i, status = 401,
               title = ''Unauthorized'', type = t\<rparr>, s') \<and>
      take (length s) s' = s) \<and>
   (\<exists>r s'. unavailableForLegalReasons_acc s i t d m =
        Inr (\<lparr>detail = d, extensions = r, instance = i, status = 451,
               title = ''Unavailable For Legal Reasons'', type = t\<rparr>, s') \<and>
      take (length s) s' = s) \<and>
   (\<exists>r s'. unsupportedMediaType_acc s i t d m =
        Inr (\<lparr>detail = d, extensions = r, instance = i, status = 415,
               title = ''Unsupported Media Type'', type = t\<rparr>, s') \<and>
      take (length s) s' = s)"
proof -
  note b = buildProblem_acc_plain [OF assms]
  note e = errors_body_plain [OF assms]
  show ?thesis
    unfolding errors_ctor_acc_defs plain_ctor_acc_defs statusCodes.simps
    by (intro conjI b e)
qed

text \<open>
  A store with the plain bag \<^verbatim>\<open>{"x": 1}\<close> at address 0 and a field-errors object at
  address 1.
\<close>

theorem constructors_total_on_plain_data_witness:
  "plainBag [[(''x'', Data (RNum 1))], [(''user.email'', Data (RStr ''must be an email''))]] (Some 0) \<and>
   (\<exists>r s'. buildProblem_acc [[(''x'', Data (RNum 1))], [(''user.email'', Data (RStr ''must be an email''))]] 400 ''Bad Request'' ''about:blank'' ''/users''
        ''Invalid input'' (Some 0) =
        Inr (\<lparr>detail = ''Invalid input'', extensions = r, instance = ''/users'', status = 400,
               title = ''Bad Request'', type = ''about:blank''\<rparr>, s') \<and>
      take (length [[(''x'', Data (RNum 1))], [(''user.email'', Data (RStr ''must be an email''))]]) s' = [[(''x'', Data (RNum 1))], [(''user.email'', Data (RStr ''must be an email''))]]) \<and>
   (\<exists>r s'. badRequest_acc [[(''x'', Data (RNum 1))], [(''user.email'', Data (RStr ''must be an email''))]] ''/users'' ''about:blank'' ''Invalid input'' 1 (Some 0) =
        Inr (\<lparr>detail = ''Invalid input'', extensions = r, instance = ''/users'', status = 400,
               title = ''Bad Request'', type = ''about:blank''\<rparr>, s') \<and>
      take (length [[(''x'', Data (RNum 1))], [(''user.email'', Data (RStr ''must be an email''))]]) s' = [[(''x'', Data (RNum 1))], [(''user.email'', Data (RStr ''must be an email''))]]) \<and>
   (\<exists>r s'. internalServerError_acc [[(''x'', Data (RNum 1))], [(''user.email'', Data (RStr ''must be an email''))]] ''/users'' ''about:blank'' ''Invalid input'' 1 (Some 0) =
        Inr (\<lparr>detail = ''Invalid input'', extensions = r, instance = ''/users'', status = 500,
               title = ''Internal Server Error'', type = ''about:blank''\<rparr>, s') \<and>
      take (length [[(''x'', Data (RNum 1))], [(''user.email'', Data (RStr ''must be an email''))]]) s' = [[(''x'', Data (RNum 1))], [(''user.email'', Data (RStr ''must be an email''))]]) \<and>
   (\<exists>r s'. preconditionFailed_acc [[(''x'', Data (RNum 1))], [(''user.email'', Data (RStr ''must be an email''))]] ''/users'' ''about:blank'' ''Invalid input'' 1 (Some 0) =
        Inr (\<lparr>detail = ''Invalid input'', extensions = r, instance = ''/users'', status = 412,
               title = ''Precondition Failed'', type = ''about:blank''\<rparr>, s') \<and>
      take (length [[(''x'', Data (RNum 1))], [(''user.email'', Data (RStr ''must be an email''))]]) s' = [[(''x'', Data (RNum 1))], [(''user.email'', Data (RStr ''must be an email''))]]) \<and>
   (\<exists>r s'. unprocessableContent_acc [[(''x'', Data (RNum 1))], [(''user.email'', Data (RStr ''must be an email''))]] ''/users'' ''about:blank'' ''Invalid input'' 1 (Some 0) =
        Inr (\<lparr>detail = ''Invalid input'', extensions = r, instance = ''/users'', status = 422,
               title = ''Unprocessable Content'', type = ''about:blank''\<rparr>, s') \<and>
      take (length [[(''x'', Data (RNum 1))], [(''user.email'', Data (RStr ''must be an email''))]]) s' = [[(''x'', Data (RNum 1))], [(''user.email'', Data (RStr ''must be an email''))]]) \<and>
   (\<exists>r s'. conflict_acc [[(''x'', Data (RNum 1))], [(''user.email'', Data (RStr ''must be an email''))]] ''/users'' ''about:blank'' ''Invalid input'' (Some 0) =
        Inr (\<lparr>detail = ''Invalid input'', extensions = r, instance = ''/users'', status = 409,
               title = ''Conflict'', type = ''about:blank''\<rparr>, s') \<and>
      take (length [[(''x'', Data (RNum 1))], [(''user.email'', Data (RStr ''must be an email''))]]) s' = [[(''x'', Data (RNum 1))], [(''user.email'', Data (RStr ''must be an email''))]]) \<and>
   (\<exists>r s'. forbidden_acc [[(''x'', Data (RNum 1))], [(''user.email'', Data (RStr ''must be an email''))]] ''/users'' ''about:blank'' ''Invalid input'' (Some 0) =
        Inr (\<lparr>detail = ''Invalid input'', extensions = r, instance = ''/users'', status = 403,
               title = ''Forbidden'', type = ''about:blank''\<rparr>, s') \<and>
      take (length [[(''x'', Data (RNum 1))], [(''user.email'', Data (RStr ''must be an email''))]]) s' = [[(''x'', Data (RNum 1))], [(''user.email'', Data (RStr ''must be an email''))]]) \<and>
   (\<exists>r s'. gone_acc [[(''x'', Data (RNum 1))], [(''user.email'', Data (RStr ''must be an email''))]] ''/users'' ''about:blank'' ''Invalid input'' (Some 0) =
        Inr (\<lparr>detail = ''Invalid input'', extensions = r, instance = ''/users'', status = 410,
               title = ''Gone'', type = ''about:blank''\<rparr>, s') \<and>
      take (length [[(''x'', Data (RNum 1))], [(''user.email'', Data (RStr ''must be an email''))]]) s' = [[(''x'', Data (RNum 1))], [(''user.email'', Data (RStr ''must be an email''))]]) \<and>
   (\<exists>r s'. methodNotAllowed_acc [[(''x'', Data (RNum 1))], [(''user.email'', Data (RStr ''must be an email''))]] ''/users'' ''about:blank'' ''Invalid input'' (Some 0) =
        Inr (\<lparr>detail = ''Invalid input'', extensions = r, instance = ''/users'', status = 405,
               title = ''Method Not Allowed'', type = ''about:blank''\<rparr>, s') \<and>
      take (length [[(''x'', Data (RNum 1))], [(''user.email'', Data (RStr ''must be an email''))]]) s' = [[(''x'', Data (RNum 1))], [(''user.email'', Data (RStr ''must be an email''))]]) \<and>
   (\<exists>r s'. notAcceptable_acc [[(''x'', Data (RNum 1))], [(''user.email'', Data (RStr ''must be an email''))]] ''/users'' ''about:blank'' ''Invalid input'' (Some 0) =
        Inr (\<lparr>detail = ''Invalid input'', extensions = r, instance = ''/users'', status = 406,
               title = ''Not Acceptable'', type = ''about:blank''\<rparr>, s') \<and>
      take (length [[(''x'', Data (RNum 1))], [(''user.email'', Data (RStr ''must be an email''))]]) s' = [[(''x'', Data (RNum 1))], [(''user.email'', Data (RStr ''must be an email''))]]) \<and>
   (\<exists>r s'. notFound_acc [[(''x'', Data (RNum 1))], [(''user.email'', Data (RStr ''must be an email''))]] ''/users'' ''about:blank'' ''Invalid input'' (Some 0) =
        Inr (\<lparr>detail = ''Invalid input'', extensions = r, instance = ''/users'', status = 404,
               title = ''Not Found'', type = ''about:blank''\<rparr>, s') \<and>
      take (length [[(''x'', Data (RNum 1))], [(''user.email'', Data (RStr ''must be an email''))]]) s' = [[(''x'', Data (RNum 1))], [(''user.email'', Data (RStr ''must be an email''))]]) \<and>
   (\<exists>r s'. notImplemented_acc [[(''x'', Data (RNum 1))], [(''user.email'', Data (RStr ''must be an email''))]] ''/users'' ''about:blank'' ''Invalid input'' (Some 0) =
        Inr (\<lparr>detail = ''Invalid input'', extensions = r, instance = ''/users'', status = 501,
               title = ''Not Implemented'', type = ''about:blank''\<rparr>, s') \<and>
      take (length [[(''x'', Data (RNum 1))], [(''user.email'', Data (RStr ''must be an email''))]]) s' = [[(''x'', Data (RNum 1))], [(''user.email'', Data (RStr ''must be an email''))]]) \<and>
   (\<exists>r s'. paymentRequired_acc [[(''x'', Data (RNum 1))], [(''user.email'', Data (RStr ''must be an email''))]] ''/users'' ''about:blank'' ''Invalid input'' (Some 0) =
        Inr (\<lparr>detail = ''Invalid input'', extensions = r, instance = ''/users'', status = 402,
               title = ''Payment Required'', type = ''about:blank''\<rparr>, s') \<and>
      take (length [[(''x'', Data (RNum 1))], [(''user.email'', Data (RStr ''must be an email''))]]) s' = [[(''x'', Data (RNum 1))], [(''user.email'', Data (RStr ''must be an email''))]]) \<and>
   (\<exists>r s'. preconditionRequired_acc [[(''x'', Data (RNum 1))], [(''user.email'', Data (RStr ''must be an email''))]] ''/users'' ''about:blank'' ''Invalid input'' (Some 0) =
        Inr (\<lparr>detail = ''Invalid input'', extensions = r, instance = ''/users'', status = 428,
               title = ''Precondition Required'', type = ''about:blank''\<rparr>, s') \<and>
      take (length [[(''x'', Data (RNum 1))], [(''user.email'', Data (RStr ''must be an email''))]]) s' = [[(''x'', Data (RNum 1))], [(''user.email'', Data (RStr ''must be an email''))]]) \<and>
   (\<exists>r s'. requestTimeout_acc [[(''x'', Data (RNum 1))], [(''user.email'', Data (RStr ''must be an email''))]] ''/users'' ''about:blank'' ''Invalid input'' (Some 0) =
        Inr (\<lparr>detail = ''Invalid input'', extensions = r, instance = ''/users'', status = 408,
               title = ''Request Timeout'', type = ''about:blank''\<rparr>, s') \<and>
      take (length [[(''x'', Data (RNum 1))], [(''user.email'', Data (RStr ''must be an email''))]]) s' = [[(''x'', Data (RNum 1))], [(''user.email'', Data (RStr ''must be an email''))]]) \<and>
   (\<exists>r s'. serviceUnavailable_acc [[(''x'', Data (RNum 1))], [(''user.email'', Data (RStr ''must be an email''))]] ''/users'' ''about:blank'' ''Invalid input'' (Some 0) =
        Inr (\<lparr>detail = ''Invalid input'', extensions = r, instance = ''/users'', status = 503,
               title = ''Service Unavailable'', type = ''about:blank''\<rparr>, s') \<and>
      take (length [[(''x'', Data (RNum 1))], [(''user.email'', Data (RStr ''must be an email''))]]) s' = [[(''x'', Data (RNum 1))], [(''user.email'', Data (RStr ''must be an email''))]]) \<and>
   (\<exists>r s'. tooManyRequests_acc [[(''x'', Data (RNum 1))], [(''user.email'', Data (RStr ''must be an email''))]] ''/users'' ''about:blank'' ''Invalid input'' (Some 0) =
        Inr (\<lparr>detail = ''Invalid input'', extensions = r, instance = ''/users'', status = 429,
               title = ''Too Many Requests'', type = ''about:blank''\<rparr>, s') \<and>
      take (length [[(''x'', Data (RNum 1))], [(''user.email'', Data (RStr ''must be an email''))]]) s' = [[(''x'', Data (RNum 1))], [(''user.email'', Data (RStr ''must be an email''))]]) \<and>
   (\<exists>r s'. unauthorized_acc [[(''x'', Data (RNum 1))], [(''user.email'', Data (RStr ''must be an email''))]] ''/users'' ''about:blank'' ''Invalid input'' (Some 0) =
        Inr (\<lparr>detail = ''Invalid input'', extensions = r, instance = ''/users'', status = 401,
               title = ''Unauthorized'', type = ''about:blank''\<rparr>, s') \<and>
      take (length [[(''x'', Data (RNum 1))], [(''user.email'', Data (RStr ''must be an email''))]]) s' = [[(''x'', Data (RNum 1))], [(''user.email'', Data (RStr ''must be an email''))]]) \<and>
   (\<exists>r s'. unavailableForLegalReasons_acc [[(''x'', Data (RNum 1))], [(''user.email'', Data (RStr ''must be an email''))]] ''/users'' ''about:blank'' ''Invalid input'' (Some 0) =
        Inr (\<lparr>detail = ''Invalid input'', extensions = r, instance = ''/users'', status = 451,
               title = ''Unavailable For Legal Reasons'', type = ''about:blank''\<rparr>, s') \<and>
      take (length [[(''x'', Data (RNum 1))], [(''user.email'', Data (RStr ''must be an email''))]]) s' = [[(''x'', Data (RNum 1))], [(''user.email'', Data (RStr ''must be an email''))]]) \<and>
   (\<exists>r s'. unsupportedMediaType_acc [[(''x'', Data (RNum 1))], [(''user.email'', Data (RStr ''must be an email''))]] ''/users'' ''about:blank'' ''Invalid input'' (Some 0) =
        Inr (\<lparr>detail = ''Invalid input'', extensions = r, instance = ''/users'', status = 415,
               title = ''Unsupported Media Type'', type = ''about:blank''\<rparr>, s') \<and>
      take (length [[(''x'', Data (RNum 1))], [(''user.email'', Data (RStr ''must be an email''))]]) s' = [[(''x'', Data (RNum 1))], [(''user.email'', Data (RStr ''must be an email''))]])"
proof -
  have h: "plainBag [[(''x'', Data (RNum 1))], [(''user.email'', Data (RStr ''must be an email''))]] (Some 0)"
    by (simp add: plainBag_def)
  show ?thesis
    using h constructors_total_on_plain_data [OF h, where st = 400
        and ti = "''Bad Request''" and t = "''about:blank''" and i = "''/users''"
        and d = "''Invalid input''" and e = 1]
    by (simp only: simp_thms)
qed

end
